theory Spec2Isabelle
  imports Main "HOL-Library.Word"
begin

unbundle bit_operations_syntax

section \<open>The address manager (ip_manager.go)\<close>

subsection \<open>Configuration and what the process does to the outside\<close>

text \<open>
  \<^verbatim>\<open>IPManager\<close> embeds \<^verbatim>\<open>*IPConfiguration\<close>. Its declaration and its method
  \<^verbatim>\<open>GetCIDR\<close> are not part of the sources at hand, so the configuration is a
  parameter of every function below: the record holds the interface name, the text
  of \<^verbatim>\<open>m.vip\<close> (\<^verbatim>\<open>m.vip.String()\<close>) and the text that \<^verbatim>\<open>m.GetCIDR()\<close> returns,
  whatever they are.
\<close>

record IPConfiguration =
  vip :: string
  iface :: string
  GetCIDR :: string

text \<open>
  Everything observable that the manager does is recorded as a list of events, oldest
  first: an external command handed to the operating system (\<^verbatim>\<open>c.Run()\<close> or
  \<^verbatim>\<open>c.Start()\<close> with its argument vector), a log line (one constructor for each
  \<^verbatim>\<open>log.Printf\<close> of the file, with the arguments of the format), and a
  \<^verbatim>\<open>m.recheck.Broadcast()\<close>.
\<close>

datatype event =
    Exec "string list"
  | LogState string bool bool
  | LogConfiguring string string
  | LogRemoving string string
  | LogGotError "32 word"
  | LogRunError string string string string
  | Broadcast

text \<open>
  The error value of \<^verbatim>\<open>c.Run()\<close>. An \<^verbatim>\<open>*exec.ExitError\<close> carries what
  \<^verbatim>\<open>exit.Sys()\<close> holds: a \<^verbatim>\<open>syscall.WaitStatus\<close>, which is a \<^verbatim>\<open>uint32\<close>, or a
  value of another type, for which the type assertion of the source yields
  \<^verbatim>\<open>ok = false\<close>. Any other error (the command could not be started, its output
  could not be copied) is \<open>OtherError\<close>. \<^verbatim>\<open>nil\<close> is \<open>None\<close>.

  The source reads the wait status through \<^verbatim>\<open>ExitStatus()\<close> and logs the status
  itself. \<^verbatim>\<open>Exited\<close> and \<^verbatim>\<open>ExitStatus\<close> are the methods of the Go library for
  Linux: the low seven bits are zero when the process exited by itself, the exit
  code is the second byte, and \<^verbatim>\<open>ExitStatus()\<close> is \<open>-1\<close> for a process that did
  not exit by itself.
\<close>

datatype sys_status = WaitStatus "32 word" | NoWaitStatus

definition Exited :: "32 word \<Rightarrow> bool" where
  "Exited w = (w AND 0x7F = 0x00)"

definition ExitStatus :: "32 word \<Rightarrow> int" where
  "ExitStatus w = (if \<not> Exited w then - 1 else uint (drop_bit 8 w AND 0xFF))"

datatype run_error = ExitError sys_status | OtherError string

datatype panic = Panic string

subsection \<open>The helpers that run commands\<close>

definition runAddressConfiguration ::
  "IPConfiguration \<Rightarrow> string \<Rightarrow> run_error option \<Rightarrow> bool \<times> event list" where
  "runAddressConfiguration m action err =
     (let c = [''ip'', ''addr'', action, GetCIDR m, ''dev'', iface m] in
      case err of
        Some (ExitError (WaitStatus status)) \<Rightarrow>
          if ExitStatus status = 2 then (True, [Exec c])
          else (False, [Exec c, LogGotError status])
      | Some (ExitError NoWaitStatus) \<Rightarrow> (False, [Exec c])
      | Some (OtherError e) \<Rightarrow>
          (False, [Exec c, LogRunError action (vip m) (iface m) e])
      | None \<Rightarrow> (True, [Exec c]))"

definition ConfigureAddress ::
  "IPConfiguration \<Rightarrow> run_error option \<Rightarrow> bool \<times> event list" where
  "ConfigureAddress m err =
     (let (r, evs) = runAddressConfiguration m ''add'' err
      in (r, LogConfiguring (GetCIDR m) (iface m) # evs))"

definition DeconfigureAddress ::
  "IPConfiguration \<Rightarrow> run_error option \<Rightarrow> bool \<times> event list" where
  "DeconfigureAddress m err =
     (let (r, evs) = runAddressConfiguration m ''delete'' err
      in (r, LogRemoving (GetCIDR m) (iface m) # evs))"

definition ARPQueryDuplicates ::
  "IPConfiguration \<Rightarrow> run_error option \<Rightarrow> bool \<times> event list" where
  "ARPQueryDuplicates m err =
     (let c = [''arping'', ''-D'', ''-c'', ''2'', ''-q'', ''-w'', ''3'', ''-I'', iface m, vip m] in
      if err \<noteq> None then (False, [Exec c]) else (True, [Exec c]))"

text \<open>
  \<^verbatim>\<open>strings.HasPrefix\<close> and \<^verbatim>\<open>strings.Contains\<close> of the Go library, on byte strings:
  \<open>Contains s substr\<close> holds when \<open>substr\<close> occurs somewhere within \<open>s\<close>.
\<close>

fun HasPrefix :: "string \<Rightarrow> string \<Rightarrow> bool" where
  "HasPrefix s [] = True"
| "HasPrefix [] (p # ps) = False"
| "HasPrefix (c # s) (p # ps) = (c = p \<and> HasPrefix s ps)"

fun Contains :: "string \<Rightarrow> string \<Rightarrow> bool" where
  "Contains [] substr = (substr = [])"
| "Contains (c # s) substr = (HasPrefix (c # s) substr \<or> Contains s substr)"

text \<open>
  \<^verbatim>\<open>QueryAddress\<close> runs \<^verbatim>\<open>ip addr show <iface>\<close>. What the operating system does with
  it is one of: the pipe for the output cannot be made, the command cannot be
  started, or it starts and the scanner yields the lines of its output (the error of
  the final \<^verbatim>\<open>c.Wait()\<close> is dropped by the source). The loop over the lines is
  \<open>scan\<close>, with the variable \<^verbatim>\<open>result\<close> as its accumulator.
\<close>

datatype query_outcome =
    StdoutPipeFails string
  | StartFails string
  | Lines "string list"

fun scan :: "string \<Rightarrow> string list \<Rightarrow> bool \<Rightarrow> bool" where
  "scan lookup [] result = result"
| "scan lookup (line # rest) result =
     scan lookup rest (if Contains line lookup then True else result)"

definition QueryAddress ::
  "IPConfiguration \<Rightarrow> query_outcome \<Rightarrow> (panic + bool) \<times> event list" where
  "QueryAddress m out =
     (let c = [''ip'', ''addr'', ''show'', iface m];
          lookup = ''inet '' @ GetCIDR m
      in case out of
           StdoutPipeFails e \<Rightarrow> (Inl (Panic e), [])
         | StartFails e \<Rightarrow> (Inl (Panic e), [Exec c])
         | Lines ls \<Rightarrow> (Inr (scan lookup ls False), [Exec c]))"

text \<open>
  The reading of the specification that \<^verbatim>\<open>QueryAddress\<close> is compared with: the
  address list of the interface is the list of the words that follow the word
  \<open>inet\<close> on the lines of the output, and the interface carries the address when one
  of these words is equal to the configured text. \<open>spec_fields\<close> splits a line at
  blanks (its second argument is the word being read).
\<close>

fun spec_fields :: "string \<Rightarrow> string \<Rightarrow> string list" where
  "spec_fields [] w = (if w = [] then [] else [w])"
| "spec_fields (c # s) w =
     (if c = CHR '' '' then (if w = [] then spec_fields s [] else w # spec_fields s [])
      else spec_fields s (w @ [c]))"

fun spec_inet_entry :: "string list \<Rightarrow> string list" where
  "spec_inet_entry (w1 # w2 # ws) = (if w1 = ''inet'' then [w2] else [])"
| "spec_inet_entry ws = []"

definition spec_address_list :: "string list \<Rightarrow> string list" where
  "spec_address_list ls = concat (map (\<lambda>line. spec_inet_entry (spec_fields line [])) ls)"

definition spec_carries_address :: "IPConfiguration \<Rightarrow> string list \<Rightarrow> bool" where
  "spec_carries_address m ls = (GetCIDR m \<in> set (spec_address_list ls))"

subsection \<open>The coordinator and the reconciler as one transition system\<close>

text \<open>
  \<^verbatim>\<open>SyncStates\<close> starts \<^verbatim>\<open>applyLoop\<close> as a goroutine and then serves its
  \<^verbatim>\<open>select\<close>; the two run interleaved and share \<^verbatim>\<open>currentState\<close>, the mutex
  \<^verbatim>\<open>stateLock\<close>, the condition variable \<^verbatim>\<open>recheck\<close>, the context and the wait
  group. A state of the system holds these and one program counter for each of the
  two.

  The coordinator is at its \<^verbatim>\<open>select\<close> (\<open>CSelect\<close>), has received \<^verbatim>\<open>newState\<close>
  from the channel and is about to lock (\<open>CLock newState\<close>), is in \<^verbatim>\<open>wg.Wait()\<close>
  (\<open>CWait\<close>) or has returned. The reconciler is about to call \<^verbatim>\<open>QueryAddress\<close> (\<open>RQuery\<close>), about
  to lock with the answer in \<^verbatim>\<open>actualState\<close> (\<open>RLock\<close>), inside the lock
  (\<open>RLocked\<close>), about to configure or deconfigure (\<open>RApply desiredState\<close>), blocked in
  \<^verbatim>\<open>m.recheck.Wait()\<close> (\<open>RWaiting\<close>; \<open>RNotified\<close> once a broadcast has reached it), at
  its \<^verbatim>\<open>select\<close> on \<^verbatim>\<open>ctx.Done()\<close> (\<open>RCheck\<close>), about to make the final
  \<^verbatim>\<open>DeconfigureAddress\<close> (\<open>RFinal\<close>), returned with \<^verbatim>\<open>wg.Done()\<close> called
  (\<open>RExited\<close>), or it has panicked, which ends the whole process.
\<close>

datatype coord_pc = CSelect | CLock bool | CWait | CReturned

datatype rec_pc =
    RQuery | RLock bool | RLocked bool | RApply bool
  | RWaiting | RNotified | RCheck | RFinal | RExited | RPanicked

record manager =
  currentState :: bool
  stateLock :: bool
  cancelled :: bool
  wg :: nat
  cpc :: coord_pc
  rpc :: rec_pc
  trace :: "event list"

text \<open>
  The state in which \<^verbatim>\<open>SyncStates\<close> enters its loop on a manager made by
  \<^verbatim>\<open>NewIPManager\<close>: \<^verbatim>\<open>currentState\<close> is false, the lock is free, \<^verbatim>\<open>wg.Add(1)\<close> has
  been called and the goroutine is at the head of \<^verbatim>\<open>applyLoop\<close>.
\<close>

definition NewIPManager :: manager where
  "NewIPManager =
     \<lparr>currentState = False, stateLock = False, cancelled = False, wg = 1,
      cpc = CSelect, rpc = RQuery, trace = []\<rparr>"

text \<open>
  \<^verbatim>\<open>m.recheck.Broadcast()\<close> wakes the goroutines that are waiting at that moment and
  is not remembered otherwise (a \<^verbatim>\<open>sync.Cond\<close> never returns from \<^verbatim>\<open>Wait\<close> without
  a \<^verbatim>\<open>Broadcast\<close> or \<^verbatim>\<open>Signal\<close>). The reconciler is the only goroutine that waits.
\<close>

definition broadcast :: "manager \<Rightarrow> manager" where
  "broadcast s =
     s\<lparr>rpc := (if rpc s = RWaiting then RNotified else rpc s),
       trace := trace s @ [Broadcast]\<rparr>"

text \<open>
  The steps. \<open>Cancel\<close> is the environment cancelling the context. The coordinator
  takes \<open>Receive newState\<close> (the receive \<^verbatim>\<open>newState := <-states\<close>, which does not
  need the lock), \<open>Store\<close> (\<^verbatim>\<open>m.stateLock.Lock()\<close>, which waits while the lock is
  held, and the critical section up to \<^verbatim>\<open>Unlock\<close>), \<open>Tick\<close> (the case \<^verbatim>\<open><-ticker.C\<close>), \<open>CoordDone\<close>
  (the case \<^verbatim>\<open><-ctx.Done()\<close> up to the call of \<^verbatim>\<open>wg.Wait()\<close>) and \<open>CoordReturn\<close>
  (\<^verbatim>\<open>wg.Wait()\<close> returns, then \<^verbatim>\<open>SyncStates\<close>). The reconciler takes \<open>Query out\<close>
  (\<^verbatim>\<open>QueryAddress\<close>, with what the operating system did), \<open>Lock\<close>, \<open>Compare\<close> (the
  snapshot of \<^verbatim>\<open>currentState\<close>, the log line and the branch: unlock, or enter
  \<^verbatim>\<open>Wait\<close>, which registers the waiter and releases the lock), \<open>Apply err\<close>
  (\<^verbatim>\<open>ConfigureAddress\<close> or \<^verbatim>\<open>DeconfigureAddress\<close>, with the error of the command),
  \<open>Wake\<close> (\<^verbatim>\<open>Wait\<close> takes the lock again and returns, then \<^verbatim>\<open>Unlock\<close>), \<open>Select\<close>
  (the \<^verbatim>\<open>select\<close> on \<^verbatim>\<open>ctx.Done()\<close> with its \<^verbatim>\<open>default\<close>) and \<open>Final err\<close> (the
  last \<^verbatim>\<open>DeconfigureAddress\<close>, the return and \<^verbatim>\<open>wg.Done()\<close>).

  A step that is not enabled in a state yields \<open>None\<close>. A Go \<^verbatim>\<open>select\<close> with several
  ready cases takes any of them, which is the choice among the enabled steps.
\<close>

datatype action =
    Cancel
  | Receive bool | Store | Tick | CoordDone | CoordReturn
  | Query query_outcome | Lock | Compare | Apply "run_error option"
  | Wake | Select | Final "run_error option"

definition SyncStates :: "action \<Rightarrow> manager \<Rightarrow> manager option" where
  "SyncStates a s =
     (case a of
        Receive newState \<Rightarrow>
          if cpc s = CSelect then Some (s\<lparr>cpc := CLock newState\<rparr>) else None
      | Store \<Rightarrow>
          (case cpc s of
             CLock newState \<Rightarrow>
               if stateLock s then None
               else Some ((if currentState s \<noteq> newState
                           then broadcast (s\<lparr>currentState := newState\<rparr>) else s)
                          \<lparr>cpc := CSelect\<rparr>)
           | _ \<Rightarrow> None)
      | Tick \<Rightarrow> if cpc s = CSelect then Some (broadcast s) else None
      | CoordDone \<Rightarrow>
          if cpc s = CSelect \<and> cancelled s then Some ((broadcast s)\<lparr>cpc := CWait\<rparr>)
          else None
      | CoordReturn \<Rightarrow>
          if cpc s = CWait \<and> wg s = 0 then Some (s\<lparr>cpc := CReturned\<rparr>) else None
      | _ \<Rightarrow> None)"

definition applyLoop :: "IPConfiguration \<Rightarrow> action \<Rightarrow> manager \<Rightarrow> manager option" where
  "applyLoop m a s =
     (case a of
        Query out \<Rightarrow>
          if rpc s = RQuery then
            (case QueryAddress m out of
               (Inl p, evs) \<Rightarrow> Some (s\<lparr>rpc := RPanicked, trace := trace s @ evs\<rparr>)
             | (Inr actualState, evs) \<Rightarrow>
                 Some (s\<lparr>rpc := RLock actualState, trace := trace s @ evs\<rparr>))
          else None
      | Lock \<Rightarrow>
          (case rpc s of
             RLock actualState \<Rightarrow>
               if stateLock s then None
               else Some (s\<lparr>stateLock := True, rpc := RLocked actualState\<rparr>)
           | _ \<Rightarrow> None)
      | Compare \<Rightarrow>
          (case rpc s of
             RLocked actualState \<Rightarrow>
               (let desiredState = currentState s;
                    s1 = s\<lparr>trace := trace s @ [LogState (GetCIDR m) actualState desiredState]\<rparr>
                in if actualState \<noteq> desiredState
                   then Some (s1\<lparr>stateLock := False, rpc := RApply desiredState\<rparr>)
                   else Some (s1\<lparr>stateLock := False, rpc := RWaiting\<rparr>))
           | _ \<Rightarrow> None)
      | Apply err \<Rightarrow>
          (case rpc s of
             RApply desiredState \<Rightarrow>
               Some (s\<lparr>rpc := RQuery,
                       trace := trace s @
                         snd (if desiredState then ConfigureAddress m err
                              else DeconfigureAddress m err)\<rparr>)
           | _ \<Rightarrow> None)
      | Wake \<Rightarrow>
          if rpc s = RNotified \<and> \<not> stateLock s then Some (s\<lparr>rpc := RCheck\<rparr>) else None
      | Select \<Rightarrow>
          if rpc s = RCheck
          then Some (s\<lparr>rpc := (if cancelled s then RFinal else RQuery)\<rparr>)
          else None
      | Final err \<Rightarrow>
          if rpc s = RFinal
          then Some (s\<lparr>rpc := RExited, wg := wg s - 1,
                       trace := trace s @ snd (DeconfigureAddress m err)\<rparr>)
          else None
      | _ \<Rightarrow> None)"

definition of_coordinator :: "action \<Rightarrow> bool" where
  "of_coordinator a =
     (case a of Receive b \<Rightarrow> True | Store \<Rightarrow> True | Tick \<Rightarrow> True | CoordDone \<Rightarrow> True
      | CoordReturn \<Rightarrow> True | _ \<Rightarrow> False)"

definition step :: "IPConfiguration \<Rightarrow> action \<Rightarrow> manager \<Rightarrow> manager option" where
  "step m a s =
     (if rpc s = RPanicked then None
      else if a = Cancel then Some (s\<lparr>cancelled := True\<rparr>)
      else if of_coordinator a then SyncStates a s
      else applyLoop m a s)"

fun run :: "IPConfiguration \<Rightarrow> action list \<Rightarrow> manager \<Rightarrow> manager option" where
  "run m [] s = Some s"
| "run m (a # as) s = (case step m a s of None \<Rightarrow> None | Some s' \<Rightarrow> run m as s')"

text \<open>
  What can be read off a schedule and off a trace: the booleans delivered to the
  coordinator, in the order in which it received them, the commands run, and the
  number of final deconfigurations. While the coordinator is about to lock, the value
  delivered last is not stored yet.
\<close>

fun delivered :: "action list \<Rightarrow> bool list" where
  "delivered [] = []"
| "delivered (Receive b # as) = b # delivered as"
| "delivered (a # as) = delivered as"

fun about_to_lock :: "coord_pc \<Rightarrow> bool" where
  "about_to_lock (CLock b) = True"
| "about_to_lock c = False"

fun execs :: "event list \<Rightarrow> string list list" where
  "execs [] = []"
| "execs (Exec c # evs) = c # execs evs"
| "execs (e # evs) = execs evs"

fun finals :: "action list \<Rightarrow> nat" where
  "finals [] = 0"
| "finals (Final err # as) = Suc (finals as)"
| "finals (a # as) = finals as"

text \<open>
  The three commands of \<^verbatim>\<open>QueryAddress\<close>, \<^verbatim>\<open>ConfigureAddress\<close> and
  \<^verbatim>\<open>DeconfigureAddress\<close>, and the command of \<^verbatim>\<open>ARPQueryDuplicates\<close>.
\<close>

definition show_command :: "IPConfiguration \<Rightarrow> string list" where
  "show_command m = [''ip'', ''addr'', ''show'', iface m]"

definition add_command :: "IPConfiguration \<Rightarrow> string list" where
  "add_command m = [''ip'', ''addr'', ''add'', GetCIDR m, ''dev'', iface m]"

definition delete_command :: "IPConfiguration \<Rightarrow> string list" where
  "delete_command m = [''ip'', ''addr'', ''delete'', GetCIDR m, ''dev'', iface m]"

definition arping_command :: "IPConfiguration \<Rightarrow> string list" where
  "arping_command m =
     [''arping'', ''-D'', ''-c'', ''2'', ''-q'', ''-w'', ''3'', ''-I'', iface m, vip m]"

text \<open>A configuration to evaluate the functions on.\<close>

definition eth0_config :: IPConfiguration where
  "eth0_config = \<lparr>vip = ''10.0.0.1'', iface = ''eth0'', GetCIDR = ''10.0.0.1/24''\<rparr>"

text \<open>
  \<^verbatim>\<open>time.NewTicker(10 * time.Second)\<close>: a \<^verbatim>\<open>time.Duration\<close> counts nanoseconds.
\<close>

definition Second :: int where
  "Second = 1000000000"

definition tickerInterval :: int where
  "tickerInterval = 10 * Second"

section \<open>The leadership watcher (package checker)\<close>

text \<open>
  \<^verbatim>\<open>ConsulLeaderChecker\<close> with its key and node name; its \<^verbatim>\<open>apiClient\<close> is the
  environment. One turn of \<^verbatim>\<open>checkLoop\<close> makes one \<^verbatim>\<open>kv.Get\<close>, and what
  the environment does in that turn is one \<open>turn\<close>:
  \<^item> \<open>GetErr e cerr\<close>: \<^verbatim>\<open>kv.Get\<close> returns the error \<open>e\<close>, and \<^verbatim>\<open>ctx.Err()\<close> then
    yields \<open>cerr\<close> (\<open>None\<close> for \<^verbatim>\<open>nil\<close>);
  \<^item> \<open>GetNil\<close>: it returns no error and no record;
  \<^item> \<open>GetOk v i sel\<close>: it returns a record with \<^verbatim>\<open>Value\<close> \<open>v\<close> and \<^verbatim>\<open>ModifyIndex\<close>
    \<open>i\<close> (a \<^verbatim>\<open>uint64\<close>), and the \<^verbatim>\<open>select\<close> that follows either sends on
    \<^verbatim>\<open>out\<close> (\<open>Sent\<close>) or finds the context done, with the error \<^verbatim>\<open>ctx.Err()\<close> has
    from then on (\<open>Done e\<close>).
  A blocking read that comes back because the wait time of the client
  (\<^verbatim>\<open>WaitTime: time.Second\<close>) has passed is a \<open>GetOk\<close> with the value and the index
  of the turn before.

  What the watcher does is again a list of events: the read with the key and the
  \<^verbatim>\<open>WaitIndex\<close> of its query options, the two log lines, \<^verbatim>\<open>time.Sleep\<close> with its
  duration, and a boolean sent on \<^verbatim>\<open>out\<close>.
\<close>

record ConsulLeaderChecker =
  key :: string
  nodename :: string

datatype ctx_error = Canceled | DeadlineExceeded

datatype select_result = Sent | Done ctx_error

datatype turn =
    GetErr string "ctx_error option"
  | GetNil
  | GetOk string "64 word" select_result

datatype wevent =
    Get string "64 word"
  | LogConsulError string
  | LogCannotGet string
  | Sleep int
  | Send bool

text \<open>
  The state of the loop: the \<^verbatim>\<open>WaitIndex\<close> of \<^verbatim>\<open>queryOptions\<close>, the events so far,
  and the value returned once the loop has been left (\<open>None\<close> while it runs).
\<close>

record watcher =
  WaitIndex :: "64 word"
  wtrace :: "wevent list"
  returned :: "ctx_error option"

fun checkLoop :: "ConsulLeaderChecker \<Rightarrow> turn list \<Rightarrow> watcher \<Rightarrow> watcher" where
  "checkLoop c [] w = w"
| "checkLoop c (GetErr e cerr # ts) w =
     (case cerr of
        Some ce \<Rightarrow>
          w\<lparr>wtrace := wtrace w @ [Get (key c) (WaitIndex w)], returned := Some ce\<rparr>
      | None \<Rightarrow>
          checkLoop c ts
            (w\<lparr>wtrace := wtrace w @
                  [Get (key c) (WaitIndex w), LogConsulError e, Sleep (1 * Second)]\<rparr>))"
| "checkLoop c (GetNil # ts) w =
     checkLoop c ts
       (w\<lparr>wtrace := wtrace w @
             [Get (key c) (WaitIndex w), LogCannotGet (key c), Sleep (1 * Second)]\<rparr>)"
| "checkLoop c (GetOk v i sel # ts) w =
     (let state = (v = nodename c);
          w1 = w\<lparr>WaitIndex := i, wtrace := wtrace w @ [Get (key c) (WaitIndex w)]\<rparr>
      in case sel of
           Done ce \<Rightarrow> w1\<lparr>returned := Some ce\<rparr>
         | Sent \<Rightarrow> checkLoop c ts (w1\<lparr>wtrace := wtrace w1 @ [Send state]\<rparr>))"

definition GetChangeNotificationStream ::
  "ConsulLeaderChecker \<Rightarrow> turn list \<Rightarrow> watcher" where
  "GetChangeNotificationStream c ts =
     checkLoop c ts \<lparr>WaitIndex = 0, wtrace = [], returned = None\<rparr>"

fun emitted :: "wevent list \<Rightarrow> bool list" where
  "emitted [] = []"
| "emitted (Send b # evs) = b # emitted evs"
| "emitted (e # evs) = emitted evs"

fun sleeps :: "wevent list \<Rightarrow> int list" where
  "sleeps [] = []"
| "sleeps (Sleep d # evs) = d # sleeps evs"
| "sleeps (e # evs) = sleeps evs"

fun reads :: "wevent list \<Rightarrow> (string \<times> 64 word) list" where
  "reads [] = []"
| "reads (Get k i # evs) = (k, i) # reads evs"
| "reads (e # evs) = reads evs"

fun logged :: "wevent list \<Rightarrow> nat" where
  "logged [] = 0"
| "logged (LogConsulError e # evs) = Suc (logged evs)"
| "logged (LogCannotGet k # evs) = Suc (logged evs)"
| "logged (e # evs) = logged evs"

text \<open>
  A turn after which the source takes the retry path (a store error while the
  context is live, or no record), a turn in which it leaves the loop, and the values
  of the records read in a list of turns.
\<close>

fun retried :: "turn \<Rightarrow> bool" where
  "retried (GetErr e None) = True"
| "retried GetNil = True"
| "retried t = False"

fun leaves :: "turn \<Rightarrow> ctx_error option" where
  "leaves (GetErr e (Some ce)) = Some ce"
| "leaves (GetOk v i (Done ce)) = Some ce"
| "leaves t = None"

fun values_read :: "turn list \<Rightarrow> string list" where
  "values_read [] = []"
| "values_read (GetOk v i sel # ts) = v # values_read ts"
| "values_read (t # ts) = values_read ts"


section \<open>Properties of the address manager\<close>

subsection \<open>Schedules, traces and invariants\<close>

lemmas step_defs = step_def SyncStates_def applyLoop_def of_coordinator_def broadcast_def
  QueryAddress_def Let_def

lemmas step_splits = if_splits action.splits rec_pc.splits coord_pc.splits prod.splits
  sum.splits query_outcome.splits

lemma run_append:
  "run m (as @ bs) s = (case run m as s of None \<Rightarrow> None | Some s' \<Rightarrow> run m bs s')"
  by (induction as arbitrary: s) (auto split: option.split)

lemma run_snoc:
  "run m (as @ [a]) s = (case run m as s of None \<Rightarrow> None | Some s' \<Rightarrow> step m a s')"
  by (simp add: run_append split: option.split)

lemma delivered_append: "delivered (as @ bs) = delivered as @ delivered bs"
  by (induction as rule: delivered.induct) auto

lemma execs_append: "execs (xs @ ys) = execs xs @ execs ys"
  by (induction xs rule: execs.induct) auto

lemma finals_append: "finals (as @ bs) = finals as + finals bs"
  by (induction as rule: finals.induct) auto

text \<open>
  A property of a schedule and the state it leads to holds for every schedule that
  runs when it holds at the start and every step keeps it.
\<close>

lemma run_invariant:
  assumes "run m sched s0 = Some s"
    and "P [] s0"
    and "\<And>as a s s'. P as s \<Longrightarrow> step m a s = Some s' \<Longrightarrow> P (as @ [a]) s'"
  shows "P sched s"
  using assms(1)
proof (induction sched arbitrary: s rule: rev_induct)
  case Nil
  with assms(2) show ?case by simp
next
  case (snoc a as)
  then obtain s1 where "run m as s0 = Some s1" and "step m a s1 = Some s"
    by (auto simp: run_snoc split: option.splits)
  with snoc.IH assms(3) show ?case by blast
qed

lemma runAddressConfiguration_execs:
  "execs (snd (runAddressConfiguration m action err)) =
     [[''ip'', ''addr'', action, GetCIDR m, ''dev'', iface m]]"
  by (simp add: runAddressConfiguration_def Let_def
      split: option.split run_error.split sys_status.split)

lemma ConfigureAddress_execs:
  "execs (snd (ConfigureAddress m err)) = [add_command m]"
  using runAddressConfiguration_execs [of m "''add''" err]
  by (simp add: ConfigureAddress_def add_command_def case_prod_beta)

lemma DeconfigureAddress_execs:
  "execs (snd (DeconfigureAddress m err)) = [delete_command m]"
  using runAddressConfiguration_execs [of m "''delete''" err]
  by (simp add: DeconfigureAddress_def delete_command_def case_prod_beta)

subsection \<open>The desired state that the reconciler reads\<close>

text \<open>
  The values are stored in the order in which they were received, each before the
  next one is received: \<^verbatim>\<open>currentState\<close> is the value delivered last, or the one
  before it while the coordinator is about to lock.
\<close>

lemma step_coordinator:
  "step m a s = Some s' \<Longrightarrow>
     (case a of
        Receive b \<Rightarrow> cpc s = CSelect \<and> cpc s' = CLock b \<and> currentState s' = currentState s
      | Store \<Rightarrow> cpc s = CLock (currentState s') \<and> cpc s' = CSelect
      | CoordDone \<Rightarrow> cpc s = CSelect \<and> cpc s' = CWait \<and> currentState s' = currentState s
      | CoordReturn \<Rightarrow> cpc s = CWait \<and> cpc s' = CReturned \<and> currentState s' = currentState s
      | _ \<Rightarrow> cpc s' = cpc s \<and> currentState s' = currentState s)"
  by (cases a)
    (auto simp: step_defs split: if_splits rec_pc.splits coord_pc.splits prod.splits sum.splits
      query_outcome.splits)

lemma run_currentState:
  assumes "run m sched NewIPManager = Some s"
  shows "currentState s =
           last (False # (if about_to_lock (cpc s) then butlast (delivered sched)
                          else delivered sched))
       \<and> (\<forall>b. cpc s = CLock b \<longrightarrow> delivered sched \<noteq> [] \<and> last (delivered sched) = b)"
proof (rule run_invariant [OF assms,
        where P = "\<lambda>as s. currentState s =
           last (False # (if about_to_lock (cpc s) then butlast (delivered as)
                          else delivered as))
       \<and> (\<forall>b. cpc s = CLock b \<longrightarrow> delivered as \<noteq> [] \<and> last (delivered as) = b)"])
  show "currentState NewIPManager =
           last (False # (if about_to_lock (cpc NewIPManager) then butlast (delivered [])
                          else delivered []))
       \<and> (\<forall>b. cpc NewIPManager = CLock b \<longrightarrow> delivered [] \<noteq> [] \<and> last (delivered []) = b)"
    by (simp add: NewIPManager_def)
next
  fix as a s s'
  assume "currentState s =
           last (False # (if about_to_lock (cpc s) then butlast (delivered as)
                          else delivered as))
       \<and> (\<forall>b. cpc s = CLock b \<longrightarrow> delivered as \<noteq> [] \<and> last (delivered as) = b)"
    and "step m a s = Some s'"
  then show "currentState s' =
           last (False # (if about_to_lock (cpc s') then butlast (delivered (as @ [a]))
                          else delivered (as @ [a])))
       \<and> (\<forall>b. cpc s' = CLock b \<longrightarrow> delivered (as @ [a]) \<noteq> [] \<and> last (delivered (as @ [a])) = b)"
    using step_coordinator [of m a s s']
    by (cases a; cases "cpc s") (auto simp: delivered_append)
qed

text \<open>
  Claim C1, as stated, fails. The coordinator has stored true. The reconciler finds
  the address absent and takes the lock; now false is delivered: the coordinator
  receives it and has to wait for the lock. The snapshot that the reconciler then
  takes is true, the value delivered before, and it goes on to configure the address.
\<close>

theorem C1_snapshot_before_pending_store:
  "run eth0_config [Receive True, Store, Query (Lines []), Lock, Receive False, Compare]
     NewIPManager =
     Some \<lparr>currentState = True, stateLock = False, cancelled = False, wg = 1,
           cpc = CLock False, rpc = RApply True,
           trace = [Broadcast, Exec [''ip'', ''addr'', ''show'', ''eth0''],
                    LogState ''10.0.0.1/24'' False True]\<rparr>
   \<and> delivered [Receive True, Store, Query (Lines []), Lock, Receive False, Compare] =
       [True, False]
   \<and> step eth0_config Store
       \<lparr>currentState = True, stateLock = True, cancelled = False, wg = 1,
        cpc = CLock False, rpc = RLocked False,
        trace = [Broadcast, Exec [''ip'', ''addr'', ''show'', ''eth0'']]\<rparr> = None"
  by (simp add: step_defs NewIPManager_def eth0_config_def)

text \<open>
  Claim C1, amended. The snapshot that the reconciler takes inside the lock is the
  value of \<^verbatim>\<open>currentState\<close> at that moment, which it logs and branches on. After
  any schedule that runs from the start, \<^verbatim>\<open>currentState\<close> is the boolean delivered
  last to the coordinator (false, the initial value, when none was delivered), with
  one exception: while the coordinator has received a value and has not yet got the
  lock to store it, \<^verbatim>\<open>currentState\<close> is the value delivered before that one. The
  coordinator receives no further value before it has stored the pending one, so
  values are stored in the order of their delivery; the cell holds one value and no
  history.
\<close>

theorem C1_reconciler_reads_latest_stored:
  assumes "run m sched NewIPManager = Some s"
  shows "currentState s =
           last (False # (if about_to_lock (cpc s) then butlast (delivered sched)
                          else delivered sched))
       \<and> (\<forall>b. cpc s = CLock b \<longrightarrow>
            delivered sched \<noteq> [] \<and> last (delivered sched) = b
            \<and> (\<forall>b'. step m (Receive b') s = None))
       \<and> (\<forall>actualState. rpc s = RLocked actualState \<longrightarrow>
            step m Compare s =
              Some (s\<lparr>trace := trace s @
                         [LogState (GetCIDR m) actualState (currentState s)],
                      stateLock := False,
                      rpc := (if actualState \<noteq> currentState s
                              then RApply (currentState s) else RWaiting)\<rparr>))"
proof -
  have "step m (Receive b') s = None" if "cpc s = CLock b" for b b'
    using that by (simp add: step_def SyncStates_def of_coordinator_def)
  moreover have "step m Compare s =
      Some (s\<lparr>trace := trace s @ [LogState (GetCIDR m) actualState (currentState s)],
              stateLock := False,
              rpc := (if actualState \<noteq> currentState s
                      then RApply (currentState s) else RWaiting)\<rparr>)"
    if "rpc s = RLocked actualState" for actualState
    using that by (simp add: step_def applyLoop_def of_coordinator_def Let_def)
  ultimately show ?thesis using run_currentState [OF assms] by simp
qed

theorem C1_witness:
  "run eth0_config [Receive True, Store, Receive False, Store, Receive True, Store,
       Query (Lines []), Lock] NewIPManager =
     Some \<lparr>currentState = True, stateLock = True, cancelled = False, wg = 1,
           cpc = CSelect, rpc = RLocked False,
           trace = [Broadcast, Broadcast, Broadcast, Exec [''ip'', ''addr'', ''show'', ''eth0'']]\<rparr>
   \<and> delivered [Receive True, Store, Receive False, Store, Receive True, Store,
       Query (Lines []), Lock] = [True, False, True]
   \<and> step eth0_config Compare
       \<lparr>currentState = True, stateLock = True, cancelled = False, wg = 1,
        cpc = CSelect, rpc = RLocked False,
        trace = [Broadcast, Broadcast, Broadcast, Exec [''ip'', ''addr'', ''show'', ''eth0'']]\<rparr> =
     Some \<lparr>currentState = True, stateLock = False, cancelled = False, wg = 1,
           cpc = CSelect, rpc = RApply True,
           trace = [Broadcast, Broadcast, Broadcast, Exec [''ip'', ''addr'', ''show'', ''eth0''],
                    LogState ''10.0.0.1/24'' False True]\<rparr>
   \<and> run eth0_config [Receive True, Store, Query (Lines []), Lock, Receive False]
       NewIPManager =
     Some \<lparr>currentState = True, stateLock = True, cancelled = False, wg = 1,
           cpc = CLock False, rpc = RLocked False,
           trace = [Broadcast, Exec [''ip'', ''addr'', ''show'', ''eth0'']]\<rparr>
   \<and> butlast (delivered [Receive True, Store, Query (Lines []), Lock, Receive False]) = [True]
   \<and> step eth0_config (Receive True)
       \<lparr>currentState = True, stateLock = True, cancelled = False, wg = 1,
        cpc = CLock False, rpc = RLocked False,
        trace = [Broadcast, Exec [''ip'', ''addr'', ''show'', ''eth0'']]\<rparr> = None"
proof -
  let ?s1 = "\<lparr>currentState = True, stateLock = True, cancelled = False, wg = 1,
           cpc = CSelect, rpc = RLocked False,
           trace = [Broadcast, Broadcast, Broadcast, Exec [''ip'', ''addr'', ''show'', ''eth0'']]\<rparr>"
  let ?s2 = "\<lparr>currentState = True, stateLock = True, cancelled = False, wg = 1,
           cpc = CLock False, rpc = RLocked False,
           trace = [Broadcast, Exec [''ip'', ''addr'', ''show'', ''eth0'']]\<rparr>"
  have r1: "run eth0_config [Receive True, Store, Receive False, Store, Receive True, Store,
       Query (Lines []), Lock] NewIPManager = Some ?s1"
    by (simp add: step_defs NewIPManager_def eth0_config_def)
  have r2: "run eth0_config [Receive True, Store, Query (Lines []), Lock, Receive False]
       NewIPManager = Some ?s2"
    by (simp add: step_defs NewIPManager_def eth0_config_def)
  have p1: "rpc ?s1 = RLocked False" and p2: "cpc ?s2 = CLock False" by simp_all
  from C1_reconciler_reads_latest_stored [OF r1] p1
  have "step eth0_config Compare ?s1 =
      Some (?s1\<lparr>trace := trace ?s1 @
                 [LogState (GetCIDR eth0_config) False (currentState ?s1)],
               stateLock := False,
               rpc := (if False \<noteq> currentState ?s1
                       then RApply (currentState ?s1) else RWaiting)\<rparr>)"
    by blast
  moreover from C1_reconciler_reads_latest_stored [OF r2] p2
  have "step eth0_config (Receive True) ?s2 = None" by blast
  ultimately show ?thesis using r1 r2 by (simp add: eth0_config_def)
qed

subsection \<open>The events the coordinator handles\<close>

text \<open>
  Claim C2. While the coordinator is at its \<^verbatim>\<open>select\<close>: a boolean from the watcher
  is received and then handled only with the lock free; when it differs from
  \<^verbatim>\<open>currentState\<close> it is stored and the condition variable is broadcast (a waiting
  reconciler is woken), when it is equal nothing changes and nothing is broadcast; a
  tick of the timer broadcasts whatever the state is and changes nothing else. The
  same holds for the critical section alone, in whatever state the coordinator gets
  to it after the receive. The timer has a period of ten seconds.
\<close>

theorem C2_coordinator_events:
  assumes "cpc s = CSelect" and "rpc s \<noteq> RPanicked"
  shows "run m [Receive newState, Store] s =
           (if stateLock s then None
            else if currentState s \<noteq> newState
                 then Some (s\<lparr>currentState := newState,
                              rpc := (if rpc s = RWaiting then RNotified else rpc s),
                              trace := trace s @ [Broadcast]\<rparr>)
                 else Some s)
       \<and> step m (Receive newState) s = Some (s\<lparr>cpc := CLock newState\<rparr>)
       \<and> (\<forall>t. cpc t = CLock newState \<and> rpc t \<noteq> RPanicked \<longrightarrow>
            step m Store t =
              (if stateLock t then None
               else if currentState t \<noteq> newState
                    then Some (t\<lparr>currentState := newState,
                                 rpc := (if rpc t = RWaiting then RNotified else rpc t),
                                 trace := trace t @ [Broadcast], cpc := CSelect\<rparr>)
                    else Some (t\<lparr>cpc := CSelect\<rparr>)))
       \<and> step m Tick s =
           Some (s\<lparr>rpc := (if rpc s = RWaiting then RNotified else rpc s),
                   trace := trace s @ [Broadcast]\<rparr>)
       \<and> tickerInterval = 10 * 1000000000"
proof -
  have sel: "s\<lparr>cpc := CSelect\<rparr> = s" using assms(1) by (cases s) simp
  have "run m [Receive newState, Store] s =
           (if stateLock s then None
            else if currentState s \<noteq> newState
                 then Some (s\<lparr>currentState := newState,
                              rpc := (if rpc s = RWaiting then RNotified else rpc s),
                              trace := trace s @ [Broadcast]\<rparr>)
                 else Some s)"
  proof -
    have "run m [Receive newState, Store] s =
           (if stateLock s then None
            else if currentState s \<noteq> newState
                 then Some ((s\<lparr>cpc := CSelect\<rparr>)\<lparr>currentState := newState,
                              rpc := (if rpc s = RWaiting then RNotified else rpc s),
                              trace := trace s @ [Broadcast]\<rparr>)
                 else Some (s\<lparr>cpc := CSelect\<rparr>))"
      using assms by (simp add: step_def SyncStates_def of_coordinator_def broadcast_def)
    then show ?thesis unfolding sel .
  qed
  moreover have "step m (Receive newState) s = Some (s\<lparr>cpc := CLock newState\<rparr>)"
    using assms by (simp add: step_def SyncStates_def of_coordinator_def)
  moreover have "step m Store t =
              (if stateLock t then None
               else if currentState t \<noteq> newState
                    then Some (t\<lparr>currentState := newState,
                                 rpc := (if rpc t = RWaiting then RNotified else rpc t),
                                 trace := trace t @ [Broadcast], cpc := CSelect\<rparr>)
                    else Some (t\<lparr>cpc := CSelect\<rparr>))"
    if "cpc t = CLock newState \<and> rpc t \<noteq> RPanicked" for t
    using that by (simp add: step_def SyncStates_def of_coordinator_def broadcast_def)
  moreover have "step m Tick s =
           Some (s\<lparr>rpc := (if rpc s = RWaiting then RNotified else rpc s),
                   trace := trace s @ [Broadcast]\<rparr>)"
    using assms by (simp add: step_def SyncStates_def of_coordinator_def broadcast_def)
  moreover have "tickerInterval = 10 * 1000000000"
    by (simp add: tickerInterval_def Second_def)
  ultimately show ?thesis by blast
qed

theorem C2_witness:
  "run eth0_config [Receive True, Store]
     \<lparr>currentState = False, stateLock = False, cancelled = False, wg = 1,
      cpc = CSelect, rpc = RWaiting, trace = []\<rparr> =
     Some \<lparr>currentState = True, stateLock = False, cancelled = False, wg = 1,
           cpc = CSelect, rpc = RNotified, trace = [Broadcast]\<rparr>
   \<and> run eth0_config [Receive False, Store]
     \<lparr>currentState = False, stateLock = False, cancelled = False, wg = 1,
      cpc = CSelect, rpc = RWaiting, trace = []\<rparr> =
     Some \<lparr>currentState = False, stateLock = False, cancelled = False, wg = 1,
           cpc = CSelect, rpc = RWaiting, trace = []\<rparr>
   \<and> step eth0_config Tick
     \<lparr>currentState = False, stateLock = False, cancelled = False, wg = 1,
      cpc = CSelect, rpc = RWaiting, trace = []\<rparr> =
     Some \<lparr>currentState = False, stateLock = False, cancelled = False, wg = 1,
           cpc = CSelect, rpc = RNotified, trace = [Broadcast]\<rparr>
   \<and> run eth0_config [Receive True, Store]
     \<lparr>currentState = False, stateLock = True, cancelled = False, wg = 1,
      cpc = CSelect, rpc = RLocked False, trace = []\<rparr> = None
   \<and> step eth0_config Store
     \<lparr>currentState = False, stateLock = False, cancelled = False, wg = 1,
      cpc = CLock True, rpc = RApply False, trace = []\<rparr> =
     Some \<lparr>currentState = True, stateLock = False, cancelled = False, wg = 1,
           cpc = CSelect, rpc = RApply False, trace = [Broadcast]\<rparr>"
proof -
  let ?t = "\<lparr>currentState = False, stateLock = False, cancelled = False, wg = 1,
      cpc = CLock True, rpc = RApply False, trace = []\<rparr>"
  have t: "cpc ?t = CLock True \<and> rpc ?t \<noteq> RPanicked" by simp
  note c2 = C2_coordinator_events [of "\<lparr>currentState = False, stateLock = False,
      cancelled = False, wg = 1, cpc = CSelect, rpc = RWaiting, trace = []\<rparr>" eth0_config True]
  from c2 t have "step eth0_config Store ?t =
      (if stateLock ?t then None
       else if currentState ?t \<noteq> True
            then Some (?t\<lparr>currentState := True,
                         rpc := (if rpc ?t = RWaiting then RNotified else rpc ?t),
                         trace := trace ?t @ [Broadcast], cpc := CSelect\<rparr>)
            else Some (?t\<lparr>cpc := CSelect\<rparr>))"
    by simp
  then show ?thesis
    using c2
      C2_coordinator_events [of "\<lparr>currentState = False, stateLock = False, cancelled = False,
        wg = 1, cpc = CSelect, rpc = RWaiting, trace = []\<rparr>" eth0_config False]
      C2_coordinator_events [of "\<lparr>currentState = False, stateLock = True, cancelled = False,
        wg = 1, cpc = CSelect, rpc = RLocked False, trace = []\<rparr>" eth0_config True]
    by simp
qed

subsection \<open>The classification of a failed address command\<close>

text \<open>
  The one error for which the source neither reports success nor logs: an
  \<^verbatim>\<open>*exec.ExitError\<close> whose \<^verbatim>\<open>Sys()\<close> is not a \<^verbatim>\<open>syscall.WaitStatus\<close>. On the
  systems that have the \<^verbatim>\<open>ip\<close> command \<^verbatim>\<open>Sys()\<close> always is one.
\<close>

lemma runAddressConfiguration_NoWaitStatus:
  "runAddressConfiguration m action (Some (ExitError NoWaitStatus)) =
     (False, [Exec [''ip'', ''addr'', action, GetCIDR m, ''dev'', iface m]])"
  by (simp add: runAddressConfiguration_def)

text \<open>Wait statuses as the kernel reports them: exit codes 2 and 1, and a kill signal.\<close>

lemma ExitStatus_examples:
  "ExitStatus 0x0200 = 2" "ExitStatus 0x0100 = 1" "ExitStatus 0x0009 = - 1"
  by (simp_all add: ExitStatus_def Exited_def)

text \<open>
  Claim C3. \<^verbatim>\<open>ConfigureAddress\<close> and \<^verbatim>\<open>DeconfigureAddress\<close> return true when the
  command ends with exit status 2. For every other exit status they return false
  after logging the status, and for an error that is not an exit status they return
  false after logging the error. They return true exactly for no error and for exit
  status 2, and whatever the outcome they run exactly one command: the \<^verbatim>\<open>ip addr add\<close>
  or \<^verbatim>\<open>ip addr delete\<close> of the configured address, never a second attempt.
\<close>

theorem C3_exit_status_2_is_success:
  "(\<forall>status. ExitStatus status = 2 \<longrightarrow>
         fst (ConfigureAddress m (Some (ExitError (WaitStatus status))))
       \<and> fst (DeconfigureAddress m (Some (ExitError (WaitStatus status)))))
   \<and> (\<forall>status. ExitStatus status \<noteq> 2 \<longrightarrow>
         ConfigureAddress m (Some (ExitError (WaitStatus status))) =
           (False, [LogConfiguring (GetCIDR m) (iface m), Exec (add_command m),
                    LogGotError status])
       \<and> DeconfigureAddress m (Some (ExitError (WaitStatus status))) =
           (False, [LogRemoving (GetCIDR m) (iface m), Exec (delete_command m),
                    LogGotError status]))
   \<and> (\<forall>e. ConfigureAddress m (Some (OtherError e)) =
           (False, [LogConfiguring (GetCIDR m) (iface m), Exec (add_command m),
                    LogRunError ''add'' (vip m) (iface m) e])
       \<and> DeconfigureAddress m (Some (OtherError e)) =
           (False, [LogRemoving (GetCIDR m) (iface m), Exec (delete_command m),
                    LogRunError ''delete'' (vip m) (iface m) e]))
   \<and> (\<forall>err. (fst (ConfigureAddress m err) \<longleftrightarrow>
                 err = None
                 \<or> (\<exists>status. err = Some (ExitError (WaitStatus status))
                       \<and> ExitStatus status = 2))
          \<and> (fst (DeconfigureAddress m err) \<longleftrightarrow>
                 err = None
                 \<or> (\<exists>status. err = Some (ExitError (WaitStatus status))
                       \<and> ExitStatus status = 2))
          \<and> execs (snd (ConfigureAddress m err)) = [add_command m]
          \<and> execs (snd (DeconfigureAddress m err)) = [delete_command m])"
  by (auto simp add: ConfigureAddress_def DeconfigureAddress_def runAddressConfiguration_def
      add_command_def delete_command_def Let_def
      split: option.split run_error.split sys_status.split)

theorem C3_witness:
  "fst (ConfigureAddress eth0_config (Some (ExitError (WaitStatus 0x0200))))
   \<and> fst (DeconfigureAddress eth0_config (Some (ExitError (WaitStatus 0x0200))))
   \<and> ConfigureAddress eth0_config (Some (ExitError (WaitStatus 0x0100))) =
       (False, [LogConfiguring ''10.0.0.1/24'' ''eth0'',
                Exec [''ip'', ''addr'', ''add'', ''10.0.0.1/24'', ''dev'', ''eth0''],
                LogGotError 0x0100])
   \<and> DeconfigureAddress eth0_config (Some (ExitError (WaitStatus 0x0009))) =
       (False, [LogRemoving ''10.0.0.1/24'' ''eth0'',
                Exec [''ip'', ''addr'', ''delete'', ''10.0.0.1/24'', ''dev'', ''eth0''],
                LogGotError 0x0009])"
proof -
  note c3 = C3_exit_status_2_is_success [of eth0_config]
  have two: "ExitStatus 0x0200 = 2" and one: "ExitStatus 0x0100 \<noteq> 2"
    and killed: "ExitStatus 0x0009 \<noteq> 2"
    by (simp_all add: ExitStatus_examples)
  from c3 two have "fst (ConfigureAddress eth0_config (Some (ExitError (WaitStatus 0x0200))))"
    and "fst (DeconfigureAddress eth0_config (Some (ExitError (WaitStatus 0x0200))))"
    by blast+
  moreover from c3 one
  have "ConfigureAddress eth0_config (Some (ExitError (WaitStatus 0x0100))) =
      (False, [LogConfiguring (GetCIDR eth0_config) (iface eth0_config),
               Exec (add_command eth0_config), LogGotError 0x0100])"
    by blast
  moreover from c3 killed
  have "DeconfigureAddress eth0_config (Some (ExitError (WaitStatus 0x0009))) =
      (False, [LogRemoving (GetCIDR eth0_config) (iface eth0_config),
               Exec (delete_command eth0_config), LogGotError 0x0009])"
    by blast
  ultimately show ?thesis
    by (simp add: eth0_config_def add_command_def delete_command_def)
qed

subsection \<open>The address query\<close>

lemma HasPrefix_iff: "HasPrefix s t \<longleftrightarrow> (\<exists>q. s = t @ q)"
  by (induction s t rule: HasPrefix.induct) auto

lemma Contains_iff: "Contains s t \<longleftrightarrow> (\<exists>p q. s = p @ t @ q)"
proof (induction s)
  case Nil
  then show ?case by auto
next
  case (Cons c s)
  show ?case
  proof
    assume "Contains (c # s) t"
    then consider "HasPrefix (c # s) t" | "Contains s t" by auto
    then show "\<exists>p q. c # s = p @ t @ q"
    proof cases
      case 1
      then obtain q where "c # s = t @ q" by (auto simp: HasPrefix_iff)
      then have "c # s = [] @ t @ q" by simp
      then show ?thesis by blast
    next
      case 2
      then obtain p q where "s = p @ t @ q" using Cons.IH by auto
      then have "c # s = (c # p) @ t @ q" by simp
      then show ?thesis by blast
    qed
  next
    assume "\<exists>p q. c # s = p @ t @ q"
    then obtain p q where pq: "c # s = p @ t @ q" by auto
    show "Contains (c # s) t"
    proof (cases p)
      case Nil
      with pq have "HasPrefix (c # s) t" by (auto simp: HasPrefix_iff)
      then show ?thesis by simp
    next
      case (Cons a p')
      with pq have "s = p' @ t @ q" by simp
      then have "Contains s t" using Cons.IH by blast
      then show ?thesis by simp
    qed
  qed
qed

lemma scan_iff: "scan lookup ls r \<longleftrightarrow> r \<or> (\<exists>line \<in> set ls. Contains line lookup)"
  by (induction ls arbitrary: r) auto

text \<open>
  What \<^verbatim>\<open>QueryAddress\<close> decides once the command has started: whether the text
  \<open>inet\<close>, a blank and the configured address occurs anywhere within some line.
\<close>

lemma QueryAddress_Lines:
  "fst (QueryAddress m (Lines ls)) =
     Inr (\<exists>line \<in> set ls. \<exists>p q. line = p @ ''inet '' @ GetCIDR m @ q)"
  by (simp add: QueryAddress_def Let_def scan_iff Contains_iff)

text \<open>
  Claim C7. The claim is that \<^verbatim>\<open>QueryAddress\<close> returns true exactly when an entry of
  the interface's address list equals the configured address text. The source tests
  \<^verbatim>\<open>strings.Contains\<close> instead: with the address \<open>10.0.0.1/2\<close> configured and an
  interface whose only address is \<open>10.0.0.1/24\<close>, \<^verbatim>\<open>QueryAddress\<close> returns true,
  although the address list holds the one entry \<open>10.0.0.1/24\<close> and so does not
  carry the configured address.
\<close>

theorem C7_substring_match_accepts_longer_address:
  "fst (QueryAddress \<lparr>vip = ''10.0.0.1'', iface = ''eth0'', GetCIDR = ''10.0.0.1/2''\<rparr>
        (Lines [''2: eth0: <BROADCAST,MULTICAST,UP,LOWER_UP> mtu 1500 qdisc fq_codel state UP'',
                ''    inet 10.0.0.1/24 brd 10.0.0.255 scope global eth0''])) = Inr True
   \<and> spec_address_list
        [''2: eth0: <BROADCAST,MULTICAST,UP,LOWER_UP> mtu 1500 qdisc fq_codel state UP'',
         ''    inet 10.0.0.1/24 brd 10.0.0.255 scope global eth0''] = [''10.0.0.1/24'']
   \<and> \<not> spec_carries_address \<lparr>vip = ''10.0.0.1'', iface = ''eth0'', GetCIDR = ''10.0.0.1/2''\<rparr>
        [''2: eth0: <BROADCAST,MULTICAST,UP,LOWER_UP> mtu 1500 qdisc fq_codel state UP'',
         ''    inet 10.0.0.1/24 brd 10.0.0.255 scope global eth0'']"
  by (simp add: QueryAddress_def spec_carries_address_def spec_address_list_def)


subsection \<open>Invariants of the transition system\<close>

lemmas run_simps = step_defs NewIPManager_def eth0_config_def

lemma inv_wg:
  assumes "run m sched NewIPManager = Some s"
  shows "wg s = (if rpc s = RExited then 0 else 1)
       \<and> finals sched = (if rpc s = RExited then 1 else 0)"
  by (rule run_invariant [OF assms,
        where P = "\<lambda>as s. wg s = (if rpc s = RExited then 0 else 1)
                        \<and> finals as = (if rpc s = RExited then 1 else 0)"])
     (auto simp: NewIPManager_def step_defs finals_append split: step_splits)

lemma inv_cancel_scheduled:
  assumes "run m sched NewIPManager = Some s"
  shows "cancelled s \<longrightarrow> Cancel \<in> set sched"
  by (rule run_invariant [OF assms, where P = "\<lambda>as s. cancelled s \<longrightarrow> Cancel \<in> set as"])
     (auto simp: NewIPManager_def step_defs split: step_splits)

lemma inv_final_cancelled:
  assumes "run m sched NewIPManager = Some s"
  shows "rpc s = RFinal \<or> rpc s = RExited \<longrightarrow> cancelled s"
  by (rule run_invariant [OF assms,
        where P = "\<lambda>as s. rpc s = RFinal \<or> rpc s = RExited \<longrightarrow> cancelled s"])
     (auto simp: NewIPManager_def step_defs split: step_splits)

lemma inv_coordinator_done:
  assumes "run m sched NewIPManager = Some s"
  shows "cpc s = CWait \<or> cpc s = CReturned \<longrightarrow>
           CoordDone \<in> set sched \<and> Broadcast \<in> set (trace s)"
  by (rule run_invariant [OF assms,
        where P = "\<lambda>as s. cpc s = CWait \<or> cpc s = CReturned \<longrightarrow>
           CoordDone \<in> set as \<and> Broadcast \<in> set (trace s)"])
     (auto simp: NewIPManager_def step_defs split: step_splits)

lemma inv_returned:
  assumes "run m sched NewIPManager = Some s"
  shows "cpc s = CReturned \<longrightarrow> wg s = 0"
  by (rule run_invariant [OF assms, where P = "\<lambda>as s. cpc s = CReturned \<longrightarrow> wg s = 0"])
     (auto simp: NewIPManager_def step_defs split: step_splits)

lemma inv_execs:
  assumes "run m sched NewIPManager = Some s"
  shows "set (execs (trace s)) \<subseteq> {show_command m, add_command m, delete_command m}
       \<and> (rpc s = RExited \<longrightarrow> execs (trace s) \<noteq> [] \<and>
            last (execs (trace s)) = delete_command m)"
  by (rule run_invariant [OF assms,
        where P = "\<lambda>as s. set (execs (trace s)) \<subseteq> {show_command m, add_command m, delete_command m}
       \<and> (rpc s = RExited \<longrightarrow> execs (trace s) \<noteq> [] \<and>
            last (execs (trace s)) = delete_command m)"])
     (auto simp: NewIPManager_def step_defs execs_append ConfigureAddress_execs
        DeconfigureAddress_execs show_command_def split: step_splits)

lemma inv_panic:
  assumes "run m sched NewIPManager = Some s"
  shows "rpc s = RPanicked \<longleftrightarrow>
           sched \<noteq> [] \<and> (\<exists>e. last sched = Query (StdoutPipeFails e)
                              \<or> last sched = Query (StartFails e))"
  by (rule run_invariant [OF assms,
        where P = "\<lambda>as s. rpc s = RPanicked \<longleftrightarrow>
           as \<noteq> [] \<and> (\<exists>e. last as = Query (StdoutPipeFails e)
                              \<or> last as = Query (StartFails e))"])
     (auto simp: NewIPManager_def step_defs split: step_splits)

lemma exited_no_step:
  "rpc s = RExited \<Longrightarrow> a \<noteq> Cancel \<Longrightarrow> \<not> of_coordinator a \<Longrightarrow> step m a s = None"
  by (auto simp: step_def applyLoop_def of_coordinator_def QueryAddress_def split: action.splits)

subsection \<open>Cancellation\<close>

text \<open>
  What the reconciler does once it has observed the cancellation. In every run, the
  final \<^verbatim>\<open>DeconfigureAddress\<close> has been made exactly once when the reconciler has
  exited and not at all before. Whenever the reconciler is at its \<^verbatim>\<open>select\<close> after
  a wake and the context is cancelled, its next two steps are enabled whatever
  \<^verbatim>\<open>currentState\<close> holds and whatever the command answers: it runs
  \<^verbatim>\<open>DeconfigureAddress\<close>, which runs the one delete command, and exits with
  \<^verbatim>\<open>wg.Done()\<close>. Once it has exited the reconciler takes no further step.
\<close>

lemma final_deconfigure_once_observed:
  assumes "run m sched NewIPManager = Some s"
  shows "finals sched = (if rpc s = RExited then 1 else 0)
       \<and> (rpc s = RCheck \<and> cancelled s \<longrightarrow>
            (\<forall>err. run m [Select, Final err] s =
               Some (s\<lparr>rpc := RExited, wg := 0,
                       trace := trace s @ snd (DeconfigureAddress m err)\<rparr>)
              \<and> execs (snd (DeconfigureAddress m err)) = [delete_command m]))
       \<and> (rpc s = RExited \<longrightarrow>
            (\<forall>a. a \<noteq> Cancel \<and> \<not> of_coordinator a \<longrightarrow> step m a s = None))"
proof -
  from inv_wg [OF assms] have wg: "wg s = (if rpc s = RExited then 0 else 1)"
    and fin: "finals sched = (if rpc s = RExited then 1 else 0)" by simp_all
  have "run m [Select, Final err] s =
      Some (s\<lparr>rpc := RExited, wg := 0, trace := trace s @ snd (DeconfigureAddress m err)\<rparr>)"
    if "rpc s = RCheck" "cancelled s" for err
    using that wg by (simp add: step_def applyLoop_def of_coordinator_def)
  with fin exited_no_step show ?thesis
    by (simp add: DeconfigureAddress_execs)
qed

lemma final_deconfigure_once_observed_example:
  "map_option (\<lambda>s. (currentState s, cancelled s, rpc s))
     (run eth0_config
        [Receive True, Store, Query (Lines [''    inet 10.0.0.1/24 scope global eth0'']), Lock,
         Compare, Cancel, Tick, Wake] NewIPManager) = Some (True, True, RCheck)
   \<and> map_option (\<lambda>s. (rpc s, wg s, execs (trace s)))
     (run eth0_config
        [Receive True, Store, Query (Lines [''    inet 10.0.0.1/24 scope global eth0'']), Lock,
         Compare, Cancel, Tick, Wake, Select, Final None] NewIPManager) =
       Some (RExited, 0, [[''ip'', ''addr'', ''show'', ''eth0''],
                          [''ip'', ''addr'', ''delete'', ''10.0.0.1/24'', ''dev'', ''eth0'']])
   \<and> finals [Receive True, Store, Query (Lines [''    inet 10.0.0.1/24 scope global eth0'']), Lock,
         Compare, Cancel, Tick, Wake, Select, Final None] = 1"
proof -
  let ?sched = "[Receive True, Store, Query (Lines [''    inet 10.0.0.1/24 scope global eth0'']), Lock,
         Compare, Cancel, Tick, Wake]"
  have "\<exists>S. run eth0_config ?sched NewIPManager = Some S \<and> currentState S \<and> cancelled S
          \<and> rpc S = RCheck \<and> execs (trace S) = [[''ip'', ''addr'', ''show'', ''eth0'']]"
    by (simp add: run_simps)
  then obtain S where r: "run eth0_config ?sched NewIPManager = Some S"
    and S: "currentState S" "cancelled S" "rpc S = RCheck"
      "execs (trace S) = [[''ip'', ''addr'', ''show'', ''eth0'']]"
    by blast
  from final_deconfigure_once_observed [OF r] S
  have f: "run eth0_config [Select, Final None] S =
      Some (S\<lparr>rpc := RExited, wg := 0,
              trace := trace S @ snd (DeconfigureAddress eth0_config None)\<rparr>)"
    and d: "execs (snd (DeconfigureAddress eth0_config None)) = [delete_command eth0_config]"
    by blast+
  have "run eth0_config (?sched @ [Select, Final None]) NewIPManager =
      Some (S\<lparr>rpc := RExited, wg := 0,
              trace := trace S @ snd (DeconfigureAddress eth0_config None)\<rparr>)"
    unfolding run_append r using f by simp
  then have "map_option (\<lambda>s. (rpc s, wg s, execs (trace s)))
     (run eth0_config (?sched @ [Select, Final None]) NewIPManager) =
       Some (RExited, 0, [[''ip'', ''addr'', ''show'', ''eth0''],
                          [''ip'', ''addr'', ''delete'', ''10.0.0.1/24'', ''dev'', ''eth0'']])"
    using S d by (simp add: execs_append delete_command_def eth0_config_def)
  then show ?thesis using r S by simp
qed

text \<open>
  Claim C9. Once the context is cancelled the coordinator's case \<^verbatim>\<open><-ctx.Done()\<close>
  broadcasts and goes to \<^verbatim>\<open>wg.Wait()\<close>. There \<^verbatim>\<open>SyncStates\<close> can return exactly when
  the reconciler has exited. So whenever \<^verbatim>\<open>SyncStates\<close> has returned or is able to
  return, the context was cancelled, the coordinator has taken its \<^verbatim>\<open><-ctx.Done()\<close>
  case with its broadcast, the reconciler has exited after exactly one final
  \<^verbatim>\<open>DeconfigureAddress\<close>, and the last command of the whole run is the delete
  command.
\<close>

theorem C9_return_after_reconciler_exit:
  assumes "run m sched NewIPManager = Some s"
  shows "(cpc s = CSelect \<and> cancelled s \<and> rpc s \<noteq> RPanicked \<longrightarrow>
            step m CoordDone s =
              Some (s\<lparr>rpc := (if rpc s = RWaiting then RNotified else rpc s),
                      trace := trace s @ [Broadcast], cpc := CWait\<rparr>))
       \<and> (cpc s = CWait \<longrightarrow>
            step m CoordReturn s =
              (if rpc s = RExited then Some (s\<lparr>cpc := CReturned\<rparr>) else None))
       \<and> (cpc s = CReturned \<or> step m CoordReturn s \<noteq> None \<longrightarrow>
            rpc s = RExited \<and> finals sched = 1 \<and> execs (trace s) \<noteq> []
            \<and> last (execs (trace s)) = delete_command m
            \<and> Cancel \<in> set sched \<and> CoordDone \<in> set sched \<and> Broadcast \<in> set (trace s))"
proof -
  note wg = inv_wg [OF assms] and e = inv_execs [OF assms]
    and c = inv_cancel_scheduled [OF assms] inv_final_cancelled [OF assms]
      inv_coordinator_done [OF assms] inv_returned [OF assms]
  have a: "cpc s = CSelect \<and> cancelled s \<and> rpc s \<noteq> RPanicked \<longrightarrow>
            step m CoordDone s =
              Some (s\<lparr>rpc := (if rpc s = RWaiting then RNotified else rpc s),
                      trace := trace s @ [Broadcast], cpc := CWait\<rparr>)"
    by (simp add: step_def SyncStates_def of_coordinator_def broadcast_def)
  have b: "cpc s = CWait \<longrightarrow>
            step m CoordReturn s =
              (if rpc s = RExited then Some (s\<lparr>cpc := CReturned\<rparr>) else None)"
    using wg by (simp add: step_def SyncStates_def of_coordinator_def)
  have ex: "rpc s = RExited" if "cpc s = CReturned \<or> step m CoordReturn s \<noteq> None"
    using that wg c
    by (auto simp: step_def SyncStates_def of_coordinator_def split: if_splits)
  have nsel: "cpc s = CWait \<or> cpc s = CReturned"
    if "cpc s = CReturned \<or> step m CoordReturn s \<noteq> None"
    using that by (auto simp: step_def SyncStates_def of_coordinator_def split: if_splits)
  from ex nsel wg c e have
    "cpc s = CReturned \<or> step m CoordReturn s \<noteq> None \<longrightarrow>
            rpc s = RExited \<and> finals sched = 1 \<and> execs (trace s) \<noteq> []
            \<and> last (execs (trace s)) = delete_command m
            \<and> Cancel \<in> set sched \<and> CoordDone \<in> set sched \<and> Broadcast \<in> set (trace s)"
    by auto
  with a b show ?thesis by blast
qed

theorem C9_witness:
  "step eth0_config CoordDone
     \<lparr>currentState = False, stateLock = False, cancelled = True, wg = 1,
      cpc = CSelect, rpc = RWaiting,
      trace = [Exec [''ip'', ''addr'', ''show'', ''eth0''], LogState ''10.0.0.1/24'' False False]\<rparr> =
     Some \<lparr>currentState = False, stateLock = False, cancelled = True, wg = 1,
           cpc = CWait, rpc = RNotified,
           trace = [Exec [''ip'', ''addr'', ''show'', ''eth0''],
                    LogState ''10.0.0.1/24'' False False, Broadcast]\<rparr>
   \<and> step eth0_config CoordReturn
     \<lparr>currentState = False, stateLock = False, cancelled = True, wg = 1,
      cpc = CWait, rpc = RNotified,
      trace = [Exec [''ip'', ''addr'', ''show'', ''eth0''],
               LogState ''10.0.0.1/24'' False False, Broadcast]\<rparr> = None
   \<and> map_option (\<lambda>s. (cpc s, rpc s, execs (trace s)))
       (run eth0_config
          [Query (Lines []), Lock, Compare, Cancel, CoordDone, Wake, Select, Final None,
           CoordReturn] NewIPManager) =
       Some (CReturned, RExited,
             [[''ip'', ''addr'', ''show'', ''eth0''],
              [''ip'', ''addr'', ''delete'', ''10.0.0.1/24'', ''dev'', ''eth0'']])
   \<and> finals [Query (Lines []), Lock, Compare, Cancel, CoordDone, Wake, Select, Final None,
              CoordReturn] = 1"
proof -
  let ?s1 = "\<lparr>currentState = False, stateLock = False, cancelled = True, wg = 1,
      cpc = CSelect, rpc = RWaiting,
      trace = [Exec [''ip'', ''addr'', ''show'', ''eth0''], LogState ''10.0.0.1/24'' False False]\<rparr>"
  let ?s2 = "\<lparr>currentState = False, stateLock = False, cancelled = True, wg = 1,
      cpc = CWait, rpc = RNotified,
      trace = [Exec [''ip'', ''addr'', ''show'', ''eth0''],
               LogState ''10.0.0.1/24'' False False, Broadcast]\<rparr>"
  have r1: "run eth0_config [Query (Lines []), Lock, Compare, Cancel] NewIPManager = Some ?s1"
    by (simp add: run_simps)
  have r2: "run eth0_config [Query (Lines []), Lock, Compare, Cancel, CoordDone] NewIPManager =
      Some ?s2"
    by (simp add: run_simps)
  have "\<exists>S. run eth0_config
          [Query (Lines []), Lock, Compare, Cancel, CoordDone, Wake, Select, Final None,
           CoordReturn] NewIPManager = Some S \<and> cpc S = CReturned"
    by (simp add: run_simps)
  then obtain S where r3: "run eth0_config
          [Query (Lines []), Lock, Compare, Cancel, CoordDone, Wake, Select, Final None,
           CoordReturn] NewIPManager = Some S" and S: "cpc S = CReturned"
    by blast
  from C9_return_after_reconciler_exit [OF r1] have a: "step eth0_config CoordDone ?s1 = Some ?s2" by simp
  from C9_return_after_reconciler_exit [OF r2] have b: "step eth0_config CoordReturn ?s2 = None" by simp
  from C9_return_after_reconciler_exit [OF r3] S have c: "rpc S = RExited"
    "last (execs (trace S)) = delete_command eth0_config"
    by blast+
  have "execs (trace S) = [[''ip'', ''addr'', ''show'', ''eth0''],
              [''ip'', ''addr'', ''delete'', ''10.0.0.1/24'', ''dev'', ''eth0'']]"
    using r3 by (auto simp add: run_simps runAddressConfiguration_def DeconfigureAddress_def)
  with a b c S r3 show ?thesis by simp
qed

text \<open>
  The state in which a cancellation leaves the system when it comes while the
  reconciler is between \<^verbatim>\<open>QueryAddress\<close> and \<^verbatim>\<open>Wait\<close>: the coordinator has
  broadcast and is in \<^verbatim>\<open>wg.Wait()\<close>, the reconciler has found the address as desired
  and waits. Nothing but a further cancellation is enabled there, and that changes
  nothing.
\<close>

lemma lost_wakeup_state:
  "run eth0_config [Query (Lines []), Cancel, CoordDone, Lock, Compare] NewIPManager =
     Some \<lparr>currentState = False, stateLock = False, cancelled = True, wg = 1,
           cpc = CWait, rpc = RWaiting,
           trace = [Exec [''ip'', ''addr'', ''show'', ''eth0''], Broadcast,
                    LogState ''10.0.0.1/24'' False False]\<rparr>"
  by (simp add: run_simps)

lemma stuck_step:
  assumes "cpc s = CWait" and "rpc s = RWaiting" and "cancelled s" and "wg s = 1"
  shows "step m a s = (if a = Cancel then Some s else None)"
proof (cases "a = Cancel")
  case True
  have "s\<lparr>cancelled := True\<rparr> = s" using assms(3) by (cases s) simp
  with True assms(2) show ?thesis by (simp add: step_def)
next
  case False
  with assms show ?thesis by (cases a) (simp_all add: step_defs)
qed

lemma stuck_run:
  assumes "cpc s = CWait" and "rpc s = RWaiting" and "cancelled s" and "wg s = 1"
  shows "run m ext s = Some s' \<Longrightarrow> s' = s \<and> finals ext = 0"
proof (induction ext)
  case Nil
  then show ?case by simp
next
  case (Cons a ext)
  from Cons.prems stuck_step [OF assms, of m a] have a: "a = Cancel"
    by (auto split: if_splits)
  with Cons.prems stuck_step [OF assms, of m a] have "run m ext s = Some s'" by simp
  with Cons.IH a show ?case by simp
qed

text \<open>
  Claim C4. The claim is that in every execution in which cancellation occurs the
  reconciler makes exactly one final \<^verbatim>\<open>DeconfigureAddress\<close> and exits. The source
  is written to do so (the coordinator broadcasts on cancellation to wake the
  reconciler) but loses the wake-up when the reconciler is not waiting yet: in the run
  below the context is cancelled and the coordinator broadcasts while the reconciler
  is between \<^verbatim>\<open>QueryAddress\<close> and \<^verbatim>\<open>Wait\<close>. However the run is continued, the
  reconciler stays in \<^verbatim>\<open>Wait\<close>, no final \<^verbatim>\<open>DeconfigureAddress\<close> is made, the only
  command ever run is the query, and \<^verbatim>\<open>SyncStates\<close> stays in \<^verbatim>\<open>wg.Wait()\<close>.
\<close>

theorem C4_lost_wakeup_no_final_deconfigure:
  "\<forall>ext s'.
     run eth0_config ([Query (Lines []), Cancel, CoordDone, Lock, Compare] @ ext)
       NewIPManager = Some s' \<longrightarrow>
       cancelled s' \<and> rpc s' = RWaiting \<and> cpc s' = CWait
       \<and> finals ([Query (Lines []), Cancel, CoordDone, Lock, Compare] @ ext) = 0
       \<and> execs (trace s') = [[''ip'', ''addr'', ''show'', ''eth0'']]"
proof (intro allI impI)
  fix ext s'
  let ?s = "\<lparr>currentState = False, stateLock = False, cancelled = True, wg = 1,
           cpc = CWait, rpc = RWaiting,
           trace = [Exec [''ip'', ''addr'', ''show'', ''eth0''], Broadcast,
                    LogState ''10.0.0.1/24'' False False]\<rparr>"
  assume "run eth0_config ([Query (Lines []), Cancel, CoordDone, Lock, Compare] @ ext)
       NewIPManager = Some s'"
  then have "run eth0_config ext ?s = Some s'"
    unfolding run_append lost_wakeup_state by simp
  from stuck_run [OF _ _ _ _ this] have "s' = ?s" and "finals ext = 0" by simp_all
  then show "cancelled s' \<and> rpc s' = RWaiting \<and> cpc s' = CWait
       \<and> finals ([Query (Lines []), Cancel, CoordDone, Lock, Compare] @ ext) = 0
       \<and> execs (trace s') = [[''ip'', ''addr'', ''show'', ''eth0'']]"
    by (simp add: finals_append)
qed

theorem C4_witness:
  "run eth0_config [Query (Lines []), Cancel, CoordDone, Lock, Compare, Cancel, Cancel]
     NewIPManager =
     Some \<lparr>currentState = False, stateLock = False, cancelled = True, wg = 1,
           cpc = CWait, rpc = RWaiting,
           trace = [Exec [''ip'', ''addr'', ''show'', ''eth0''], Broadcast,
                    LogState ''10.0.0.1/24'' False False]\<rparr>
   \<and> finals [Query (Lines []), Cancel, CoordDone, Lock, Compare, Cancel, Cancel] = 0
   \<and> run eth0_config [Query (Lines []), Cancel, CoordDone, Lock, Compare, Tick]
       NewIPManager = None
   \<and> run eth0_config [Query (Lines []), Cancel, CoordDone, Lock, Compare, Wake]
       NewIPManager = None
   \<and> run eth0_config [Query (Lines []), Cancel, CoordDone, Lock, Compare, CoordReturn]
       NewIPManager = None"
proof -
  have r: "run eth0_config ([Query (Lines []), Cancel, CoordDone, Lock, Compare] @ [Cancel, Cancel])
     NewIPManager =
     Some \<lparr>currentState = False, stateLock = False, cancelled = True, wg = 1,
           cpc = CWait, rpc = RWaiting,
           trace = [Exec [''ip'', ''addr'', ''show'', ''eth0''], Broadcast,
                    LogState ''10.0.0.1/24'' False False]\<rparr>"
    by (simp add: run_simps)
  from C4_lost_wakeup_no_final_deconfigure [THEN spec, THEN spec, THEN mp, OF r]
  have "finals ([Query (Lines []), Cancel, CoordDone, Lock, Compare] @ [Cancel, Cancel]) = 0"
    by simp
  moreover have "run eth0_config [Query (Lines []), Cancel, CoordDone, Lock, Compare, Tick]
       NewIPManager = None"
    and "run eth0_config [Query (Lines []), Cancel, CoordDone, Lock, Compare, Wake]
       NewIPManager = None"
    and "run eth0_config [Query (Lines []), Cancel, CoordDone, Lock, Compare, CoordReturn]
       NewIPManager = None"
    by (simp_all add: run_simps)
  ultimately show ?thesis using r by simp
qed

subsection \<open>Failures inside the reconciliation loop\<close>

text \<open>
  Claim C8, as stated, fails: when the \<^verbatim>\<open>ip addr show\<close> command cannot be started,
  \<^verbatim>\<open>QueryAddress\<close> panics; the goroutine of the reconciler panics with it, which ends
  the process, so that not even a tick is handled afterwards.
\<close>

theorem C8_query_start_failure_is_fatal:
  "fst (QueryAddress eth0_config (StartFails ''fork/exec /sbin/ip: no such file or directory'')) =
     Inl (Panic ''fork/exec /sbin/ip: no such file or directory'')
   \<and> run eth0_config [Query (StartFails ''fork/exec /sbin/ip: no such file or directory'')]
       NewIPManager =
     Some \<lparr>currentState = False, stateLock = False, cancelled = False, wg = 1,
           cpc = CSelect, rpc = RPanicked,
           trace = [Exec [''ip'', ''addr'', ''show'', ''eth0'']]\<rparr>
   \<and> step eth0_config Tick
       \<lparr>currentState = False, stateLock = False, cancelled = False, wg = 1,
        cpc = CSelect, rpc = RPanicked,
        trace = [Exec [''ip'', ''addr'', ''show'', ''eth0'']]\<rparr> = None"
  by (simp add: run_simps)

text \<open>
  Claim C8, amended. The process panics exactly through a \<^verbatim>\<open>QueryAddress\<close> whose
  output pipe cannot be made or whose command cannot be started: a run has ended in
  a panic if and only if its last step is such a query, and after it no step is
  enabled. No other failure is fatal: \<^verbatim>\<open>ConfigureAddress\<close> and
  \<^verbatim>\<open>DeconfigureAddress\<close> in the loop, and the final \<^verbatim>\<open>DeconfigureAddress\<close>, return
  for every error of their command without a panic, and \<^verbatim>\<open>QueryAddress\<close> returns a
  boolean without a panic for whatever a started command prints.
\<close>

theorem C8_only_query_start_failure_panics:
  assumes "run m sched NewIPManager = Some s"
  shows "(rpc s = RPanicked \<longleftrightarrow>
            sched \<noteq> [] \<and> (\<exists>e. last sched = Query (StdoutPipeFails e)
                               \<or> last sched = Query (StartFails e)))
       \<and> (\<forall>d err. rpc s = RApply d \<longrightarrow>
            (\<exists>s'. step m (Apply err) s = Some s' \<and> rpc s' \<noteq> RPanicked))
       \<and> (\<forall>err. rpc s = RFinal \<longrightarrow>
            (\<exists>s'. step m (Final err) s = Some s' \<and> rpc s' \<noteq> RPanicked))
       \<and> (\<forall>ls. rpc s = RQuery \<longrightarrow>
            (\<exists>s'. step m (Query (Lines ls)) s = Some s' \<and> rpc s' \<noteq> RPanicked))
       \<and> (\<forall>e. rpc s = RQuery \<longrightarrow>
            step m (Query (StdoutPipeFails e)) s = Some (s\<lparr>rpc := RPanicked\<rparr>)
          \<and> step m (Query (StartFails e)) s =
              Some (s\<lparr>rpc := RPanicked, trace := trace s @ [Exec (show_command m)]\<rparr>))
       \<and> (\<forall>a. rpc s = RPanicked \<longrightarrow> step m a s = None)
       \<and> (\<forall>out. (\<exists>b. fst (QueryAddress m out) = Inr b) \<longleftrightarrow> (\<exists>ls. out = Lines ls))"
proof -
  have q: "(\<exists>b. fst (QueryAddress m out) = Inr b) \<longleftrightarrow> (\<exists>ls. out = Lines ls)" for out
    by (cases out) (simp_all add: QueryAddress_def)
  have st: "(\<forall>d err. rpc s = RApply d \<longrightarrow>
            (\<exists>s'. step m (Apply err) s = Some s' \<and> rpc s' \<noteq> RPanicked))
       \<and> (\<forall>err. rpc s = RFinal \<longrightarrow>
            (\<exists>s'. step m (Final err) s = Some s' \<and> rpc s' \<noteq> RPanicked))
       \<and> (\<forall>ls. rpc s = RQuery \<longrightarrow>
            (\<exists>s'. step m (Query (Lines ls)) s = Some s' \<and> rpc s' \<noteq> RPanicked))
       \<and> (\<forall>e. rpc s = RQuery \<longrightarrow>
            step m (Query (StdoutPipeFails e)) s = Some (s\<lparr>rpc := RPanicked\<rparr>)
          \<and> step m (Query (StartFails e)) s =
              Some (s\<lparr>rpc := RPanicked, trace := trace s @ [Exec (show_command m)]\<rparr>))
       \<and> (\<forall>a. rpc s = RPanicked \<longrightarrow> step m a s = None)"
    by (simp add: step_def applyLoop_def of_coordinator_def QueryAddress_def show_command_def)
  from inv_panic [OF assms] st q show ?thesis by blast
qed

theorem C8_witness:
  "map_option (\<lambda>s'. rpc s' = RPanicked)
     (step eth0_config (Apply (Some (OtherError ''exec: ip: executable file not found'')))
        \<lparr>currentState = True, stateLock = False, cancelled = False, wg = 1,
         cpc = CSelect, rpc = RApply True,
         trace = [Broadcast, Exec [''ip'', ''addr'', ''show'', ''eth0''],
                  LogState ''10.0.0.1/24'' False True]\<rparr>) = Some False
   \<and> map_option (\<lambda>s'. rpc s' = RPanicked)
       (step eth0_config (Query (Lines [])) NewIPManager) = Some False
   \<and> step eth0_config (Query (StdoutPipeFails ''too many open files'')) NewIPManager =
     Some \<lparr>currentState = False, stateLock = False, cancelled = False, wg = 1,
           cpc = CSelect, rpc = RPanicked, trace = []\<rparr>
   \<and> step eth0_config Cancel
       \<lparr>currentState = False, stateLock = False, cancelled = False, wg = 1,
        cpc = CSelect, rpc = RPanicked, trace = []\<rparr> = None"
proof -
  let ?s1 = "\<lparr>currentState = True, stateLock = False, cancelled = False, wg = 1,
      cpc = CSelect, rpc = RApply True,
      trace = [Broadcast, Exec [''ip'', ''addr'', ''show'', ''eth0''],
               LogState ''10.0.0.1/24'' False True]\<rparr>"
  let ?s2 = "\<lparr>currentState = False, stateLock = False, cancelled = False, wg = 1,
        cpc = CSelect, rpc = RPanicked, trace = []\<rparr>"
  have r0: "run eth0_config [] NewIPManager = Some NewIPManager" by simp
  have r1: "run eth0_config [Receive True, Store, Query (Lines []), Lock, Compare] NewIPManager =
      Some ?s1"
    by (simp add: run_simps)
  have r2: "run eth0_config [Query (StdoutPipeFails ''too many open files'')] NewIPManager =
      Some ?s2"
    by (simp add: run_simps)
  have q: "rpc NewIPManager = RQuery" by (simp add: NewIPManager_def)
  have p: "rpc ?s1 = RApply True" by simp
  from C8_only_query_start_failure_panics [OF r1] p
  have "\<exists>s'. step eth0_config
      (Apply (Some (OtherError ''exec: ip: executable file not found''))) ?s1 = Some s'
      \<and> rpc s' \<noteq> RPanicked"
    by blast
  moreover from C8_only_query_start_failure_panics [OF r0] q
  have "step eth0_config (Query (StdoutPipeFails ''too many open files'')) NewIPManager =
      Some (NewIPManager\<lparr>rpc := RPanicked\<rparr>)"
    by blast
  moreover from C8_only_query_start_failure_panics [OF r2]
  have "step eth0_config Cancel ?s2 = None" by simp
  ultimately show ?thesis
    by (simp add: step_defs NewIPManager_def eth0_config_def)
qed

subsection \<open>The duplicate-address probe\<close>

text \<open>
  Claim C10. The commands run by the coordinator and the reconciler together, in any
  run, are among \<^verbatim>\<open>ip addr show\<close>, \<^verbatim>\<open>ip addr add\<close> and \<^verbatim>\<open>ip addr delete\<close>; the
  \<^verbatim>\<open>arping\<close> command of \<^verbatim>\<open>ARPQueryDuplicates\<close> is never among them, and
  \<^verbatim>\<open>ConfigureAddress\<close> runs the add command and nothing else. \<^verbatim>\<open>ARPQueryDuplicates\<close>
  itself returns true exactly when its command ends without any error.
\<close>

theorem C10_loop_runs_only_ip_commands:
  assumes "run m sched NewIPManager = Some s"
  shows "set (execs (trace s)) \<subseteq> {show_command m, add_command m, delete_command m}
       \<and> arping_command m \<notin> set (execs (trace s))
       \<and> (\<forall>err. execs (snd (ConfigureAddress m err)) = [add_command m])
       \<and> (\<forall>err. ARPQueryDuplicates m err = (err = None, [Exec (arping_command m)]))"
proof -
  have "arping_command m \<notin> {show_command m, add_command m, delete_command m}"
    by (simp add: arping_command_def show_command_def add_command_def delete_command_def)
  with inv_execs [OF assms] show ?thesis
    by (auto simp: ConfigureAddress_execs ARPQueryDuplicates_def arping_command_def Let_def)
qed

theorem C10_witness:
  "map_option (\<lambda>s. execs (trace s))
     (run eth0_config [Receive True, Store, Query (Lines []), Lock, Compare, Apply None] NewIPManager) =
     Some [[''ip'', ''addr'', ''show'', ''eth0''],
           [''ip'', ''addr'', ''add'', ''10.0.0.1/24'', ''dev'', ''eth0'']]
   \<and> ARPQueryDuplicates eth0_config (Some (ExitError (WaitStatus 0x0100))) =
       (False, [Exec [''arping'', ''-D'', ''-c'', ''2'', ''-q'', ''-w'', ''3'', ''-I'', ''eth0'',
                      ''10.0.0.1'']])
   \<and> ARPQueryDuplicates eth0_config None =
       (True, [Exec [''arping'', ''-D'', ''-c'', ''2'', ''-q'', ''-w'', ''3'', ''-I'', ''eth0'',
                     ''10.0.0.1'']])"
proof -
  have "\<exists>S. run eth0_config [Receive True, Store, Query (Lines []), Lock, Compare, Apply None]
          NewIPManager = Some S
      \<and> execs (trace S) = [[''ip'', ''addr'', ''show'', ''eth0''],
           [''ip'', ''addr'', ''add'', ''10.0.0.1/24'', ''dev'', ''eth0'']]"
    by (simp add: run_simps ConfigureAddress_def runAddressConfiguration_def)
  then obtain S where r: "run eth0_config [Receive True, Store, Query (Lines []), Lock, Compare, Apply None]
          NewIPManager = Some S"
    and S: "execs (trace S) = [[''ip'', ''addr'', ''show'', ''eth0''],
           [''ip'', ''addr'', ''add'', ''10.0.0.1/24'', ''dev'', ''eth0'']]"
    by blast
  from C10_loop_runs_only_ip_commands [OF r]
  have "ARPQueryDuplicates eth0_config (Some (ExitError (WaitStatus 0x0100))) =
          (Some (ExitError (WaitStatus 0x0100)) = None, [Exec (arping_command eth0_config)])"
    and "ARPQueryDuplicates eth0_config None =
          (None = (None :: run_error option), [Exec (arping_command eth0_config)])"
    by blast+
  with r S show ?thesis
    by (simp add: arping_command_def eth0_config_def)
qed


section \<open>Properties of the leadership watcher\<close>

lemma emitted_append: "emitted (xs @ ys) = emitted xs @ emitted ys"
  by (induction xs rule: emitted.induct) auto

lemma sleeps_append: "sleeps (xs @ ys) = sleeps xs @ sleeps ys"
  by (induction xs rule: sleeps.induct) auto

lemma reads_append: "reads (xs @ ys) = reads xs @ reads ys"
  by (induction xs rule: reads.induct) auto

lemma logged_append: "logged (xs @ ys) = logged xs + logged ys"
  by (induction xs rule: logged.induct) auto

lemma checkLoop_emitted:
  "\<forall>t \<in> set ts. leaves t = None \<Longrightarrow>
     emitted (wtrace (checkLoop c ts w)) =
       emitted (wtrace w) @ map (\<lambda>v. v = nodename c) (values_read ts)
     \<and> returned (checkLoop c ts w) = returned w"
proof (induction c ts w rule: checkLoop.induct)
  case (1 c w)
  then show ?case by simp
next
  case (2 c e cerr ts w)
  then show ?case by (cases cerr) (simp_all add: emitted_append)
next
  case (3 c ts w)
  then show ?case by (simp add: emitted_append)
next
  case (4 c v i sel ts w)
  then show ?case by (cases sel) (simp_all add: emitted_append Let_def)
qed

text \<open>
  Claim C5, as stated, fails. The node is \<open>node1\<close>; the first read returns \<open>node2\<close>
  with index 5; the second read, blocking on index 5, comes back after the wait time
  with the same value and the same index; then the value becomes \<open>node1\<close> and
  \<open>node2\<close> again. The watcher sends false twice in a row although the value did not
  change in between: the stream is false, false, true, false.
\<close>

theorem C5_timeout_read_repeats_boolean:
  "emitted (wtrace (GetChangeNotificationStream \<lparr>key = ''service/pgcluster/leader'', nodename = ''node1''\<rparr>
      [GetOk ''node2'' 5 Sent, GetOk ''node2'' 5 Sent, GetOk ''node1'' 6 Sent,
       GetOk ''node2'' 7 Sent])) = [False, False, True, False]
   \<and> reads (wtrace (GetChangeNotificationStream \<lparr>key = ''service/pgcluster/leader'', nodename = ''node1''\<rparr>
      [GetOk ''node2'' 5 Sent, GetOk ''node2'' 5 Sent, GetOk ''node1'' 6 Sent,
       GetOk ''node2'' 7 Sent])) =
     [(''service/pgcluster/leader'', 0), (''service/pgcluster/leader'', 5),
      (''service/pgcluster/leader'', 5), (''service/pgcluster/leader'', 6)]"
  by (simp add: GetChangeNotificationStream_def)

text \<open>
  Claim C5, amended. As long as the watcher does not leave its loop, it sends one
  boolean for every read that returns a record, in the order of the reads, and the
  boolean says whether the value read equals the node name; it does not compare with
  the value read before. For the node \<open>node1\<close> and reads that return \<open>node2\<close>,
  \<open>node1\<close>, \<open>node2\<close> the stream is false, true, false.
\<close>

theorem C5_one_boolean_per_record_read:
  assumes "\<forall>t \<in> set ts. leaves t = None"
  shows "emitted (wtrace (GetChangeNotificationStream c ts)) =
           map (\<lambda>v. v = nodename c) (values_read ts)
       \<and> returned (GetChangeNotificationStream c ts) = None"
  using checkLoop_emitted [OF assms, of c "\<lparr>WaitIndex = 0, wtrace = [], returned = None\<rparr>"]
  by (simp add: GetChangeNotificationStream_def)

theorem C5_witness:
  "emitted (wtrace (GetChangeNotificationStream \<lparr>key = ''service/pgcluster/leader'', nodename = ''node1''\<rparr>
      [GetOk ''node2'' 5 Sent, GetOk ''node1'' 6 Sent, GetOk ''node2'' 7 Sent])) =
     [False, True, False]"
proof -
  have h: "\<forall>t \<in> set [GetOk ''node2'' 5 Sent, GetOk ''node1'' 6 Sent, GetOk ''node2'' 7 Sent].
             leaves t = None"
    by simp
  from C5_one_boolean_per_record_read [OF h, of "\<lparr>key = ''service/pgcluster/leader'', nodename = ''node1''\<rparr>"]
  show ?thesis by simp
qed

lemma checkLoop_retries:
  "\<forall>t \<in> set ts. retried t \<Longrightarrow>
     WaitIndex (checkLoop c ts w) = WaitIndex w
     \<and> returned (checkLoop c ts w) = returned w
     \<and> emitted (wtrace (checkLoop c ts w)) = emitted (wtrace w)
     \<and> sleeps (wtrace (checkLoop c ts w)) =
         sleeps (wtrace w) @ replicate (length ts) 1000000000
     \<and> reads (wtrace (checkLoop c ts w)) =
         reads (wtrace w) @ replicate (length ts) (key c, WaitIndex w)
     \<and> logged (wtrace (checkLoop c ts w)) = logged (wtrace w) + length ts"
proof (induction c ts w rule: checkLoop.induct)
  case (1 c w)
  then show ?case by simp
next
  case (2 c e cerr ts w)
  then show ?case
    by (cases cerr)
      (simp_all add: sleeps_append reads_append logged_append emitted_append Second_def
        replicate_app_Cons_same)
next
  case (3 c ts w)
  then show ?case
    by (simp add: sleeps_append reads_append logged_append emitted_append Second_def
        replicate_app_Cons_same)
next
  case (4 c v i sel ts w)
  then show ?case by simp
qed

lemma checkLoop_returned:
  "returned (checkLoop c ts w) = Some ce \<Longrightarrow>
     returned w = Some ce \<or> (\<exists>t \<in> set ts. leaves t = Some ce)"
proof (induction c ts w rule: checkLoop.induct)
  case (1 c w)
  then show ?case by simp
next
  case (2 c e cerr ts w)
  then show ?case by (cases cerr) auto
next
  case (3 c ts w)
  then show ?case by auto
next
  case (4 c v i sel ts w)
  then show ?case by (cases sel) (auto simp: Let_def)
qed

lemma checkLoop_leaves:
  "\<forall>t \<in> set ts. leaves t = None \<Longrightarrow> leaves t' = Some ce \<Longrightarrow>
     returned (checkLoop c (ts @ t' # ts') w) = Some ce"
proof (induction c ts w rule: checkLoop.induct)
  case (1 c w)
  then show ?case by (cases t' rule: leaves.cases) (simp_all add: Let_def)
next
  case (2 c e cerr ts w)
  then show ?case by (cases cerr) simp_all
next
  case (3 c ts w)
  then show ?case by simp
next
  case (4 c v i sel ts w)
  then show ?case by (cases sel) (simp_all add: Let_def)
qed

text \<open>
  Claim C6. From any state of the loop, a sequence of turns that are store errors
  with a live context or missing records, however long, leaves the loop running with
  its \<^verbatim>\<open>WaitIndex\<close> unchanged and nothing sent: every turn reads again with the same
  key and index, logs one line and sleeps one second, the same for every turn. The
  watcher returns only through a turn in which the context is found cancelled, the
  value it returns is the error of the context, and the first such turn does make it
  return.
\<close>

theorem C6_retry_until_cancelled:
  "((\<forall>t \<in> set ts. retried t) \<longrightarrow>
       WaitIndex (checkLoop c ts w) = WaitIndex w
     \<and> returned (checkLoop c ts w) = returned w
     \<and> emitted (wtrace (checkLoop c ts w)) = emitted (wtrace w)
     \<and> sleeps (wtrace (checkLoop c ts w)) =
         sleeps (wtrace w) @ replicate (length ts) 1000000000
     \<and> reads (wtrace (checkLoop c ts w)) =
         reads (wtrace w) @ replicate (length ts) (key c, WaitIndex w)
     \<and> logged (wtrace (checkLoop c ts w)) = logged (wtrace w) + length ts)
   \<and> (\<forall>ce. returned (GetChangeNotificationStream c ts) = Some ce \<longrightarrow>
         (\<exists>t \<in> set ts. leaves t = Some ce))
   \<and> (\<forall>ts1 t ts2 ce. ts = ts1 @ t # ts2 \<and> (\<forall>t' \<in> set ts1. leaves t' = None)
         \<and> leaves t = Some ce \<longrightarrow>
         returned (GetChangeNotificationStream c ts) = Some ce)"
proof -
  have "\<exists>t \<in> set ts. leaves t = Some ce"
    if "returned (GetChangeNotificationStream c ts) = Some ce" for ce
    using checkLoop_returned [of c ts "\<lparr>WaitIndex = 0, wtrace = [], returned = None\<rparr>" ce] that
    by (simp add: GetChangeNotificationStream_def)
  moreover have "returned (GetChangeNotificationStream c ts) = Some ce"
    if "ts = ts1 @ t # ts2" "\<forall>t' \<in> set ts1. leaves t' = None" "leaves t = Some ce"
    for ts1 t ts2 ce
    using checkLoop_leaves [OF that(2,3)] that(1)
    by (simp add: GetChangeNotificationStream_def)
  ultimately show ?thesis using checkLoop_retries [of ts c w] by blast
qed

theorem C6_witness:
  "checkLoop \<lparr>key = ''service/pgcluster/leader'', nodename = ''node1''\<rparr>
     [GetErr ''connection refused'' None, GetNil, GetErr ''connection refused'' None]
     \<lparr>WaitIndex = 7, wtrace = [], returned = None\<rparr> =
     \<lparr>WaitIndex = 7,
      wtrace = [Get ''service/pgcluster/leader'' 7, LogConsulError ''connection refused'',
                Sleep 1000000000,
                Get ''service/pgcluster/leader'' 7, LogCannotGet ''service/pgcluster/leader'',
                Sleep 1000000000,
                Get ''service/pgcluster/leader'' 7, LogConsulError ''connection refused'',
                Sleep 1000000000],
      returned = None\<rparr>
   \<and> sleeps (wtrace (checkLoop \<lparr>key = ''service/pgcluster/leader'', nodename = ''node1''\<rparr>
        [GetErr ''connection refused'' None, GetNil, GetErr ''connection refused'' None]
        \<lparr>WaitIndex = 7, wtrace = [], returned = None\<rparr>)) =
       [1000000000, 1000000000, 1000000000]
   \<and> returned (GetChangeNotificationStream
        \<lparr>key = ''service/pgcluster/leader'', nodename = ''node1''\<rparr>
        [GetNil, GetErr ''context canceled'' (Some Canceled), GetOk ''node1'' 8 Sent]) =
       Some Canceled"
proof -
  let ?c = "\<lparr>key = ''service/pgcluster/leader'', nodename = ''node1''\<rparr>"
  let ?w = "\<lparr>WaitIndex = 7, wtrace = [], returned = None\<rparr>"
  let ?ts = "[GetErr ''connection refused'' None, GetNil, GetErr ''connection refused'' None]"
  let ?us = "[GetNil, GetErr ''context canceled'' (Some Canceled), GetOk ''node1'' 8 Sent]"
  have h: "\<forall>t \<in> set ?ts. retried t" by simp
  from C6_retry_until_cancelled [of ?ts ?c ?w] h
  have "sleeps (wtrace (checkLoop ?c ?ts ?w)) =
      sleeps (wtrace ?w) @ replicate (length ?ts) 1000000000"
    by blast
  then have s: "sleeps (wtrace (checkLoop ?c ?ts ?w)) = [1000000000, 1000000000, 1000000000]"
    by (simp add: numeral_3_eq_3)
  have "?us = [GetNil] @ GetErr ''context canceled'' (Some Canceled) # [GetOk ''node1'' 8 Sent]
      \<and> (\<forall>t' \<in> set [GetNil]. leaves t' = None)
      \<and> leaves (GetErr ''context canceled'' (Some Canceled)) = Some Canceled"
    by simp
  with C6_retry_until_cancelled [of ?us ?c ?w]
  have r: "returned (GetChangeNotificationStream ?c ?us) = Some Canceled"
    by blast
  have "checkLoop ?c ?ts ?w =
     \<lparr>WaitIndex = 7,
      wtrace = [Get ''service/pgcluster/leader'' 7, LogConsulError ''connection refused'',
                Sleep 1000000000,
                Get ''service/pgcluster/leader'' 7, LogCannotGet ''service/pgcluster/leader'',
                Sleep 1000000000,
                Get ''service/pgcluster/leader'' 7, LogConsulError ''connection refused'',
                Sleep 1000000000],
      returned = None\<rparr>"
    by (simp add: Second_def)
  with s r show ?thesis by simp
qed

end
